theory Spec2Isabelle
  imports Complex_Main "HOL-Library.Word"
begin

unbundle bit_operations_syntax

text \<open>
  A model of the text extraction pipeline of the document capture tool: the thresholding
  pass of the client's \<open>preprocessImage\<close>, the read loop of its
  \<open>extractTextFromImageStream\<close>, and the serverless function \<open>api/extract-text.ts\<close> with
  its streaming and non-streaming provider handlers. Definitions come first, then the
  properties proved of them.
\<close>

section \<open>Image preprocessing: the binarization pass of \<open>preprocessImage\<close>\<close>

text \<open>
  \<open>preprocessImage\<close> draws the image through two canvas filters (\<open>grayscale(1)\<close>, then
  \<open>contrast(2)\<close>), reads the pixel buffer back with \<open>getImageData\<close> and thresholds it in a
  loop. The filters are the browser's; the model starts from the buffer \<open>imageData.data\<close>
  the loop receives: a \<open>Uint8ClampedArray\<close> of bytes, four per pixel (red, green, blue,
  alpha).
\<close>

type_synonym byte = "8 word"

text \<open>
  \<open>const avg = (data[i] + data[i + 1] + data[i + 2]) / 3; const color = avg > 128 ? 255 : 0;\<close>
  The sum is a JavaScript number (no wrap-around at 255), the division is exact on it.
\<close>

definition threshold :: "byte \<Rightarrow> byte \<Rightarrow> byte \<Rightarrow> byte" where
  "threshold r g b =
     (let avg = (real (unat r) + real (unat g) + real (unat b)) / 3
      in if avg > 128 then 255 else 0)"

text \<open>
  \<open>for (let i = 0; i < data.length; i += 4) { ...; data[i] = color; data[i + 1] = color;
  data[i + 2] = color; }\<close>. An \<open>ImageData\<close> buffer has \<open>4 * width * height\<close> entries; for
  any other length the last round reads \<open>undefined\<close> past the end, so \<open>avg\<close> is \<open>NaN\<close>,
  the comparison is false and \<open>color\<close> is 0, and a write past the end is dropped.
\<close>

fun binarize :: "byte list \<Rightarrow> byte list" where
  "binarize (r # g # b # a # rest) =
     (let color = threshold r g b in color # color # color # a # binarize rest)"
| "binarize [r, g, b] = (let color = threshold r g b in [color, color, color])"
| "binarize [r, g] = [0, 0]"
| "binarize [r] = [0]"
| "binarize [] = []"

section \<open>JavaScript strings and values\<close>

text \<open>
  A JavaScript string is a sequence of UTF-16 code units. The literals of the source are
  ASCII and are written through \<open>ascii\<close>.
\<close>

type_synonym jsstring = "16 word list"

definition ascii :: "string \<Rightarrow> jsstring" where
  "ascii s = map of_char s"

text \<open>\<open>s.startsWith(p)\<close> and \<open>s.substring(6)\<close> (which is \<open>drop 6\<close>, also on a shorter string).\<close>

definition starts_with :: "jsstring \<Rightarrow> jsstring \<Rightarrow> bool" where
  "starts_with s p \<longleftrightarrow> take (length p) s = p"

text \<open>
  \<open>s.trim()\<close> removes leading and trailing white space and line terminators:
  TAB, LF, VT, FF, CR, SP, NBSP, the Unicode space separators, LS, PS and U+FEFF.
\<close>

definition js_whitespace :: "16 word \<Rightarrow> bool" where
  "js_whitespace c \<longleftrightarrow>
     c \<in> {0x9, 0xA, 0xB, 0xC, 0xD, 0x20, 0xA0, 0x1680, 0x2028, 0x2029, 0x202F, 0x205F,
          0x3000, 0xFEFF} \<or> (0x2000 \<le> c \<and> c \<le> 0x200A)"

definition trim :: "jsstring \<Rightarrow> jsstring" where
  "trim s = rev (dropWhile js_whitespace (rev (dropWhile js_whitespace s)))"

text \<open>
  \<open>s.split(c)\<close> for a one-character separator: the pieces between the separators, never
  an empty array (\<open>''.split('\n')\<close> is \<open>['']\<close>).
\<close>

fun js_split :: "'a \<Rightarrow> 'a list \<Rightarrow> 'a list list" where
  "js_split c [] = [[]]"
| "js_split c (x # xs) =
     (if x = c then [] # js_split c xs
      else (case js_split c xs of [] \<Rightarrow> [[x]] | l # ls \<Rightarrow> (x # l) # ls))"

definition newline :: "16 word" where
  "newline = 0x0A"

text \<open>A number rendered in a template literal: decimal digits, for the HTTP status.\<close>

fun decimal :: "nat \<Rightarrow> jsstring" where
  "decimal n = (if n < 10 then [of_nat (48 + n)] else decimal (n div 10) @ [of_nat (48 + n mod 10)])"

declare decimal.simps [simp del]

text \<open>
  The values \<open>JSON.parse\<close> produces, and \<open>undefined\<close>, which property reads of a missing
  property produce. An object is its list of own properties, read with \<open>map_of\<close>. A number
  is given by its value; only whether it is zero is ever looked at.
\<close>

datatype js =
    Undefined
  | JNull
  | JBool bool
  | JNum real
  | JStr jsstring
  | JArr "js list"
  | JObj "(jsstring \<times> js) list"

text \<open>The truth value of a value in a condition (\<open>if (v)\<close>, \<open>a && b\<close>, \<open>!v\<close>, \<open>a || b\<close>).\<close>

fun truthy :: "js \<Rightarrow> bool" where
  "truthy Undefined = False"
| "truthy JNull = False"
| "truthy (JBool b) = b"
| "truthy (JNum x) = (x \<noteq> 0)"
| "truthy (JStr s) = (s \<noteq> [])"
| "truthy (JArr xs) = True"
| "truthy (JObj kvs) = True"

fun nullish :: "js \<Rightarrow> bool" where
  "nullish Undefined = True"
| "nullish JNull = True"
| "nullish v = False"

text \<open>
  What is thrown. An \<open>Error\<close> made by the source carries its message. The errors the engine
  and the platform raise (\<open>TypeError\<close> for a property of \<open>null\<close> or \<open>undefined\<close>, for
  calling what is no function, for a value that has no primitive, for a chunk
  \<open>res.write\<close> refuses; \<open>SyntaxError\<close> from \<open>JSON.parse\<close>) are \<open>Error\<close> instances whose message
  is the engine's. \<open>NonError\<close> is a thrown value that is no \<open>Error\<close> instance.
\<close>

datatype native = TypeError | SyntaxError

datatype thrown = Error jsstring | Native native | NonError

text \<open>
  Property reads. The source reads the properties \<open>task\<close>, \<open>text\<close>, \<open>image\<close>, \<open>llm\<close>,
  \<open>mimeType\<close>, \<open>choices\<close>, \<open>delta\<close>, \<open>message\<close>, \<open>content\<close>, \<open>candidates\<close>, \<open>parts\<close> and the
  index \<open>0\<close>. No built-in prototype defines one of these names, so on a value that is no
  object they are \<open>undefined\<close>; the index \<open>0\<close> of an array is its first element, of a
  string its first code unit, of an object its property \<open>"0"\<close>.
\<close>

definition own_prop :: "js \<Rightarrow> jsstring \<Rightarrow> js" where
  "own_prop v k =
     (case v of
        JObj kvs \<Rightarrow> (case map_of kvs k of Some x \<Rightarrow> x | None \<Rightarrow> Undefined)
      | _ \<Rightarrow> Undefined)"

definition own_index0 :: "js \<Rightarrow> js" where
  "own_index0 v =
     (case v of
        JArr xs \<Rightarrow> (case xs of [] \<Rightarrow> Undefined | x # _ \<Rightarrow> x)
      | JStr s \<Rightarrow> (case s of [] \<Rightarrow> Undefined | c # _ \<Rightarrow> JStr [c])
      | JObj kvs \<Rightarrow> (case map_of kvs (ascii ''0'') of Some x \<Rightarrow> x | None \<Rightarrow> Undefined)
      | _ \<Rightarrow> Undefined)"

text \<open>\<open>v.k\<close> and \<open>v[0]\<close>: a \<open>TypeError\<close> on \<open>null\<close> and \<open>undefined\<close>.\<close>

definition get_prop :: "js \<Rightarrow> jsstring \<Rightarrow> thrown + js" where
  "get_prop v k = (if nullish v then Inl (Native TypeError) else Inr (own_prop v k))"

definition get_index0 :: "js \<Rightarrow> thrown + js" where
  "get_index0 v = (if nullish v then Inl (Native TypeError) else Inr (own_index0 v))"

text \<open>\<open>v?.k\<close> and \<open>v?.[0]\<close>: \<open>undefined\<close> on \<open>null\<close> and \<open>undefined\<close>.\<close>

definition opt_prop :: "js \<Rightarrow> jsstring \<Rightarrow> js" where
  "opt_prop v k = (if nullish v then Undefined else own_prop v k)"

definition opt_index0 :: "js \<Rightarrow> js" where
  "opt_index0 v = (if nullish v then Undefined else own_index0 v)"

text \<open>
  A value interpolated into a template literal is converted to a string. The conversion
  throws a \<open>TypeError\<close> for an object with an own property \<open>toString\<close> (a parsed value is
  never callable, and \<open>Object.prototype.valueOf\<close> returns the object itself), and for an
  array with such an element (\<open>Array.prototype.toString\<close> joins the converted elements);
  \<open>null\<close> and \<open>undefined\<close> elements of an array are not converted.
\<close>

fun template_throws :: "js \<Rightarrow> bool" where
  "template_throws (JObj kvs) = (ascii ''toString'' \<in> fst ` set kvs)"
| "template_throws (JArr xs) = (\<exists>x \<in> set xs. template_throws x)"
| "template_throws v = False"

section \<open>The platform's \<open>TextDecoder\<close> (UTF-8)\<close>

text \<open>
  \<open>new TextDecoder()\<close> is the platform's UTF-8 decoder in replacement mode, as the
  Encoding Standard defines it. Its handler keeps the code point under construction, the
  number of continuation bytes seen and needed, and the range the next continuation byte
  must lie in.
\<close>

record utf8_decoder =
  code_point :: nat
  bytes_seen :: nat
  bytes_needed :: nat
  lower_boundary :: byte
  upper_boundary :: byte

definition utf8_new :: utf8_decoder where
  "utf8_new = \<lparr>code_point = 0, bytes_seen = 0, bytes_needed = 0,
               lower_boundary = 0x80, upper_boundary = 0xBF\<rparr>"

definition replacement :: nat where
  "replacement = 0xFFFD"

text \<open>A byte read while no sequence is open: ASCII, a lead byte, or an error.\<close>

definition utf8_lead :: "utf8_decoder \<Rightarrow> byte \<Rightarrow> utf8_decoder \<times> nat list" where
  "utf8_lead d b =
     (if b \<le> 0x7F then (d, [unat b])
      else if 0xC2 \<le> b \<and> b \<le> 0xDF then
        (d\<lparr>bytes_needed := 1, code_point := unat (b AND 0x1F)\<rparr>, [])
      else if 0xE0 \<le> b \<and> b \<le> 0xEF then
        (d\<lparr>lower_boundary := (if b = 0xE0 then 0xA0 else lower_boundary d),
           upper_boundary := (if b = 0xED then 0x9F else upper_boundary d),
           bytes_needed := 2, code_point := unat (b AND 0xF)\<rparr>, [])
      else if 0xF0 \<le> b \<and> b \<le> 0xF4 then
        (d\<lparr>lower_boundary := (if b = 0xF0 then 0x90 else lower_boundary d),
           upper_boundary := (if b = 0xF4 then 0x8F else upper_boundary d),
           bytes_needed := 3, code_point := unat (b AND 0x7)\<rparr>, [])
      else (d, [replacement]))"

text \<open>
  One byte through the handler, with the scalar values it emits. A byte outside the
  expected range ends the open sequence with U+FFFD and is read again with the decoder
  reset.
\<close>

definition utf8_byte :: "utf8_decoder \<Rightarrow> byte \<Rightarrow> utf8_decoder \<times> nat list" where
  "utf8_byte d b =
     (if bytes_needed d = 0 then utf8_lead d b
      else if \<not> (lower_boundary d \<le> b \<and> b \<le> upper_boundary d) then
        (let (d', out) = utf8_lead utf8_new b in (d', replacement # out))
      else
        (let d1 = d\<lparr>lower_boundary := 0x80, upper_boundary := 0xBF,
                     code_point := push_bit 6 (code_point d) OR unat (b AND 0x3F),
                     bytes_seen := bytes_seen d + 1\<rparr>
         in if bytes_seen d1 \<noteq> bytes_needed d1 then (d1, [])
            else (d1\<lparr>code_point := 0, bytes_needed := 0, bytes_seen := 0\<rparr>, [code_point d1])))"

fun utf8_bytes :: "utf8_decoder \<Rightarrow> byte list \<Rightarrow> utf8_decoder \<times> nat list" where
  "utf8_bytes d [] = (d, [])"
| "utf8_bytes d (b # bs) =
     (let (d1, out1) = utf8_byte d b; (d2, out2) = utf8_bytes d1 bs in (d2, out1 @ out2))"

text \<open>The end of the input while a sequence is open: U+FFFD.\<close>

definition utf8_end :: "utf8_decoder \<Rightarrow> utf8_decoder \<times> nat list" where
  "utf8_end d = (if bytes_needed d \<noteq> 0 then (d\<lparr>bytes_needed := 0\<rparr>, [replacement]) else (d, []))"

text \<open>A scalar value as UTF-16 code units.\<close>

definition utf16 :: "nat \<Rightarrow> jsstring" where
  "utf16 cp =
     (if cp < 0x10000 then [of_nat cp]
      else [of_nat (0xD800 + drop_bit 10 (cp - 0x10000)),
            of_nat (0xDC00 + take_bit 10 (cp - 0x10000))])"

text \<open>
  The \<open>TextDecoder\<close> object: its decoder, whether the byte order mark has been dealt with,
  and the "do not flush" flag the last call left.
\<close>

record text_decoder =
  decoder :: utf8_decoder
  bom_seen :: bool
  do_not_flush :: bool

definition new_TextDecoder :: text_decoder where
  "new_TextDecoder = \<lparr>decoder = utf8_new, bom_seen = False, do_not_flush = False\<rparr>"

text \<open>The output as a string: a byte order mark that comes first is dropped.\<close>

fun serialize :: "bool \<Rightarrow> nat list \<Rightarrow> bool \<times> jsstring" where
  "serialize seen [] = (seen, [])"
| "serialize seen (cp # cps) =
     (let (seen', s) = serialize True cps
      in (seen', (if \<not> seen \<and> cp = 0xFEFF then [] else utf16 cp) @ s))"

text \<open>
  \<open>decoder.decode(value, { stream })\<close>. A call that follows a call without \<open>stream: true\<close>
  starts from a new decoder. With \<open>stream\<close> the bytes of an unfinished sequence stay in the
  decoder for the next call; without it the end of the input is processed.
\<close>

definition decode :: "text_decoder \<Rightarrow> byte list \<Rightarrow> bool \<Rightarrow> text_decoder \<times> jsstring" where
  "decode td input stream =
     (let td1 = (if do_not_flush td then td else td\<lparr>decoder := utf8_new, bom_seen := False\<rparr>);
          (d2, out) = utf8_bytes (decoder td1) input;
          (d3, out_end) = (if stream then (d2, []) else utf8_end d2);
          (seen, s) = serialize (bom_seen td1) (out @ out_end)
      in (\<lparr>decoder = d3, bom_seen = seen, do_not_flush = stream\<rparr>, s))"

section \<open>The response, the transport and the environment\<close>

text \<open>
  The response object the handler writes to (\<open>VercelResponse\<close>, Node's server response):
  \<open>status\<close> sets the status code, \<open>setHeader\<close> adds a header, \<open>write\<close> sends a chunk of the
  body, \<open>send\<close> sends a whole body and ends the response, \<open>end\<close> ends it. The headers go
  out with the first \<open>write\<close>, \<open>send\<close> or \<open>end\<close>; from then on \<open>headersSent\<close> is true.
  \<open>write\<close> takes a string (or a buffer) and throws a \<open>TypeError\<close> for any other value.
\<close>

record response =
  statusCode :: nat
  headers :: "(jsstring \<times> jsstring list) list"
  headersSent :: bool
  written :: "jsstring list"
  sent :: "js option"
  ended :: bool

definition new_response :: response where
  "new_response = \<lparr>statusCode = 200, headers = [], headersSent = False, written = [],
                     sent = None, ended = False\<rparr>"

definition res_status :: "nat \<Rightarrow> response \<Rightarrow> response" where
  "res_status code r = r\<lparr>statusCode := code\<rparr>"

definition res_setHeader :: "jsstring \<Rightarrow> jsstring list \<Rightarrow> response \<Rightarrow> response" where
  "res_setHeader name val r = r\<lparr>headers := headers r @ [(name, val)]\<rparr>"

definition res_write :: "jsstring \<Rightarrow> response \<Rightarrow> response" where
  "res_write chunk r = r\<lparr>written := written r @ [chunk], headersSent := True\<rparr>"

definition res_send :: "js \<Rightarrow> response \<Rightarrow> response" where
  "res_send b r = r\<lparr>sent := Some b, headersSent := True, ended := True\<rparr>"

definition res_end :: "response \<Rightarrow> response" where
  "res_end r = r\<lparr>ended := True, headersSent := True\<rparr>"

text \<open>
  One call of \<open>fetch\<close>: the URL, the \<open>Authorization\<close> header when there is one, and the
  \<open>model\<close> and \<open>stream\<close> fields of the payload when it has them. The prompt and the image
  in the payload are passed through and decide nothing below; only whether building
  them throws is modelled.
\<close>

record fetch_call =
  url :: jsstring
  authorization :: "jsstring option"
  payload_model :: "jsstring option"
  payload_stream :: "bool option"

text \<open>
  What the provider answers: \<open>ok\<close> and \<open>status\<close>, what \<open>text()\<close> and \<open>json()\<close> resolve to (or
  reject with), and the body as the reader delivers it: the byte chunks of the successive
  \<open>read()\<close> calls, and then either \<open>done\<close> (\<open>None\<close>) or a rejected read.
\<close>

record upstream_response =
  ok :: bool
  status :: nat
  text_body :: "thrown + jsstring"
  json_body :: "thrown + js"
  reads :: "byte list list"
  read_failure :: "thrown option"

record environment =
  DEEPSEEK_API_KEY :: "jsstring option"
  OPENAI_API_KEY :: "jsstring option"
  GEMINI_API_KEY :: "jsstring option"

text \<open>
  What the function runs in: the process environment, the transport behind \<open>fetch\<close> (which
  may reject), \<open>JSON.parse\<close>, and the messages of the engine's own errors.
\<close>

record world =
  env :: environment
  fetch :: "fetch_call \<Rightarrow> thrown + upstream_response"
  json_parse :: "jsstring \<Rightarrow> thrown + js"
  engine_message :: "native \<Rightarrow> jsstring"

text \<open>
  The state of one invocation: the response, the calls made to the transport, the lines
  written with \<open>console.error\<close>, and the strings handed to \<open>JSON.parse\<close>.
\<close>

datatype logline =
    StreamJsonError thrown
  | GeminiChunkError thrown jsstring
  | FunctionError thrown
  | MidStream

record server =
  res :: response
  fetched :: "fetch_call list"
  console :: "logline list"
  parsed :: "jsstring list"

definition new_server :: server where
  "new_server = \<lparr>res = new_response, fetched = [], console = [], parsed = []\<rparr>"

definition console_error :: "logline \<Rightarrow> server \<Rightarrow> server" where
  "console_error l s = s\<lparr>console := console s @ [l]\<rparr>"

definition JSON_parse :: "world \<Rightarrow> jsstring \<Rightarrow> server \<Rightarrow> (thrown + js) \<times> server" where
  "JSON_parse w x s = (json_parse w x, s\<lparr>parsed := parsed s @ [x]\<rparr>)"

text \<open>\<open>if (textChunk) res.write(textChunk)\<close>, inside a \<open>try\<close> block.\<close>

definition write_if_truthy :: "js \<Rightarrow> server \<Rightarrow> thrown + server" where
  "write_if_truthy textChunk s =
     (if truthy textChunk then
        (case textChunk of
           JStr t \<Rightarrow> Inr (s\<lparr>res := res_write t (res s)\<rparr>)
         | _ \<Rightarrow> Inl (Native TypeError))
      else Inr s)"

section \<open>Streaming handlers (OCR)\<close>

text \<open>\<open>json.choices[0]?.delta?.content\<close>\<close>

definition delta_content :: "js \<Rightarrow> thrown + js" where
  "delta_content json =
     (case get_prop json (ascii ''choices'') of
        Inl e \<Rightarrow> Inl e
      | Inr choices \<Rightarrow>
          (case get_index0 choices of
             Inl e \<Rightarrow> Inl e
           | Inr choice \<Rightarrow> Inr (opt_prop (opt_prop choice (ascii ''delta'')) (ascii ''content''))))"

text \<open>
  The body of \<open>for (const line of lines)\<close> in \<open>handleOpenAICompatibleStream\<close>, from
  \<open>const data = line.substring(6)\<close> on: the payload is parsed unless it trims to \<open>[DONE]\<close>;
  whatever the \<open>try\<close> block throws is logged and the loop goes on.
\<close>

definition sse_data :: "world \<Rightarrow> jsstring \<Rightarrow> server \<Rightarrow> server" where
  "sse_data w data s =
     (if trim data = ascii ''[DONE]'' then s
      else
        (case JSON_parse w data s of
           (Inl e, s1) \<Rightarrow> console_error (StreamJsonError e) s1
         | (Inr json, s1) \<Rightarrow>
             (case delta_content json of
                Inl e \<Rightarrow> console_error (StreamJsonError e) s1
              | Inr textChunk \<Rightarrow>
                  (case write_if_truthy textChunk s1 of
                     Inl e \<Rightarrow> console_error (StreamJsonError e) s1
                   | Inr s2 \<Rightarrow> s2))))"

text \<open>\<open>if (line.startsWith('data: ')) { ... }\<close>: any other line is passed over.\<close>

definition sse_line :: "world \<Rightarrow> jsstring \<Rightarrow> server \<Rightarrow> server" where
  "sse_line w line s =
     (if starts_with line (ascii ''data: '') then sse_data w (drop 6 line) s else s)"

text \<open>
  The \<open>while (true)\<close> loop of \<open>handleOpenAICompatibleStream\<close> over the reads that are left:
  \<open>buffer += decoder.decode(value, { stream: true }); lines = buffer.split('\n');
  buffer = lines.pop() || ''\<close>, then the lines in order. It returns what was thrown, if
  anything; the buffer is a local variable and is dropped at the end.
\<close>

fun openai_loop ::
  "world \<Rightarrow> text_decoder \<Rightarrow> jsstring \<Rightarrow> byte list list \<Rightarrow> thrown option \<Rightarrow> server
     \<Rightarrow> thrown option \<times> server" where
  "openai_loop w td buffer [] failure s = (failure, s)"
| "openai_loop w td buffer (val # rest) failure s =
     (let (td', piece) = decode td val True;
          lines = js_split newline (buffer @ piece);
          buffer' = last lines
      in openai_loop w td' buffer' rest failure (fold (sse_line w) (butlast lines) s))"

text \<open>
  \<open>handleOpenAICompatibleStream(res, body, apiUrl, model, apiKey)\<close>: the payload (its image
  URL interpolates \<open>body.mimeType\<close> and \<open>body.image\<close>), the call, the status check, the
  header, the loop.
\<close>

definition handleOpenAICompatibleStream ::
  "world \<Rightarrow> js \<Rightarrow> jsstring \<Rightarrow> jsstring \<Rightarrow> jsstring \<Rightarrow> server \<Rightarrow> thrown option \<times> server" where
  "handleOpenAICompatibleStream w body apiUrl model apiKey s =
     (if template_throws (own_prop body (ascii ''mimeType''))
         \<or> template_throws (own_prop body (ascii ''image''))
      then (Some (Native TypeError), s)
      else
        (let call = \<lparr>url = apiUrl, authorization = Some (ascii ''Bearer '' @ apiKey),
                      payload_model = Some model, payload_stream = Some True\<rparr>;
             s1 = s\<lparr>fetched := fetched s @ [call]\<rparr>
         in case fetch w call of
              Inl e \<Rightarrow> (Some e, s1)
            | Inr apiResponse \<Rightarrow>
                if \<not> ok apiResponse then
                  (case text_body apiResponse of
                     Inl e \<Rightarrow> (Some e, s1)
                   | Inr t \<Rightarrow>
                       (Some (Error (ascii ''API error: '' @ decimal (status apiResponse)
                                      @ ascii '' '' @ t)), s1))
                else
                  openai_loop w new_TextDecoder [] (reads apiResponse) (read_failure apiResponse)
                    (s1\<lparr>res := res_setHeader (ascii ''Content-Type'')
                                  [ascii ''text/plain; charset=utf-8''] (res s1)\<rparr>)))"

text \<open>\<open>jsonArray[0]?.candidates?.[0]?.content?.parts?.[0]?.text\<close>\<close>

definition candidate_text :: "js \<Rightarrow> thrown + js" where
  "candidate_text jsonArray =
     (case get_index0 jsonArray of
        Inl e \<Rightarrow> Inl e
      | Inr first \<Rightarrow>
          Inr (opt_prop (opt_index0 (opt_prop (opt_prop (opt_index0
                 (opt_prop first (ascii ''candidates''))) (ascii ''content'')) (ascii ''parts'')))
                 (ascii ''text'')))"

text \<open>\<open>chunk.replace(/^data: /, '')\<close>\<close>

definition strip_data_prefix :: "jsstring \<Rightarrow> jsstring" where
  "strip_data_prefix chunk = (if starts_with chunk (ascii ''data: '') then drop 6 chunk else chunk)"

text \<open>The \<open>try\<close> block of \<open>handleGeminiStream\<close> on one decoded chunk.\<close>

definition gemini_chunk :: "world \<Rightarrow> jsstring \<Rightarrow> server \<Rightarrow> server" where
  "gemini_chunk w chunk s =
     (case JSON_parse w (strip_data_prefix chunk) s of
        (Inl e, s1) \<Rightarrow> console_error (GeminiChunkError e chunk) s1
      | (Inr jsonArray, s1) \<Rightarrow>
          (case candidate_text jsonArray of
             Inl e \<Rightarrow> console_error (GeminiChunkError e chunk) s1
           | Inr textChunk \<Rightarrow>
               (case write_if_truthy textChunk s1 of
                  Inl e \<Rightarrow> console_error (GeminiChunkError e chunk) s1
                | Inr s2 \<Rightarrow> s2)))"

text \<open>
  The \<open>while (true)\<close> loop of \<open>handleGeminiStream\<close>: \<open>const chunk = decoder.decode(value)\<close>,
  without \<open>stream\<close>, then the \<open>try\<close> block.
\<close>

fun gemini_loop ::
  "world \<Rightarrow> text_decoder \<Rightarrow> byte list list \<Rightarrow> thrown option \<Rightarrow> server
     \<Rightarrow> thrown option \<times> server" where
  "gemini_loop w td [] failure s = (failure, s)"
| "gemini_loop w td (val # rest) failure s =
     (let (td', chunk) = decode td val False
      in gemini_loop w td' rest failure (gemini_chunk w chunk s))"

definition gemini_stream_url :: "jsstring \<Rightarrow> jsstring" where
  "gemini_stream_url apiKey =
     ascii ''https://generativelanguage.googleapis.com/v1beta/models/gemini-pro-vision:streamGenerateContent?key=''
       @ apiKey"

definition handleGeminiStream :: "world \<Rightarrow> js \<Rightarrow> jsstring \<Rightarrow> server \<Rightarrow> thrown option \<times> server" where
  "handleGeminiStream w body apiKey s =
     (let call = \<lparr>url = gemini_stream_url apiKey, authorization = None,
                   payload_model = None, payload_stream = None\<rparr>;
          s1 = s\<lparr>fetched := fetched s @ [call]\<rparr>
      in case fetch w call of
           Inl e \<Rightarrow> (Some e, s1)
         | Inr apiResponse \<Rightarrow>
             if \<not> ok apiResponse then
               (case text_body apiResponse of
                  Inl e \<Rightarrow> (Some e, s1)
                | Inr t \<Rightarrow>
                    (Some (Error (ascii ''Gemini API error: '' @ decimal (status apiResponse)
                                   @ ascii '' '' @ t)), s1))
             else
               gemini_loop w new_TextDecoder (reads apiResponse) (read_failure apiResponse)
                 (s1\<lparr>res := res_setHeader (ascii ''Content-Type'')
                               [ascii ''text/plain; charset=utf-8''] (res s1)\<rparr>))"

text \<open>
  The read loop of the client's \<open>extractTextFromImageStream\<close>: each read is decoded with
  \<open>decoder.decode(value)\<close> and yielded.
\<close>

fun extract_loop :: "text_decoder \<Rightarrow> byte list list \<Rightarrow> jsstring list" where
  "extract_loop td [] = []"
| "extract_loop td (val # rest) =
     (let (td', chunk) = decode td val False in chunk # extract_loop td' rest)"

section \<open>Non-streaming handlers (text tasks)\<close>

text \<open>
  \<open>getTextTaskPrompt(task, text)\<close> interpolates \<open>text\<close> into the prompt for the tasks
  \<open>summarize\<close> and \<open>title\<close> and returns nothing for any other task. Only whether it throws
  is modelled.
\<close>

definition getTextTaskPrompt_throws :: "js \<Rightarrow> js \<Rightarrow> bool" where
  "getTextTaskPrompt_throws task txt \<longleftrightarrow>
     (task = JStr (ascii ''summarize'') \<or> task = JStr (ascii ''title'')) \<and> template_throws txt"

text \<open>\<open>content?.trim() || ''\<close>: calling \<open>trim\<close> on what is no string is a \<open>TypeError\<close>.\<close>

definition trimmed_or_empty :: "js \<Rightarrow> thrown + jsstring" where
  "trimmed_or_empty content =
     (if nullish content then Inr []
      else (case content of JStr t \<Rightarrow> Inr (trim t) | _ \<Rightarrow> Inl (Native TypeError)))"

text \<open>\<open>json.choices[0]?.message?.content?.trim() || ''\<close>\<close>

definition message_content :: "js \<Rightarrow> thrown + jsstring" where
  "message_content json =
     (case get_prop json (ascii ''choices'') of
        Inl e \<Rightarrow> Inl e
      | Inr choices \<Rightarrow>
          (case get_index0 choices of
             Inl e \<Rightarrow> Inl e
           | Inr choice \<Rightarrow>
               trimmed_or_empty (opt_prop (opt_prop choice (ascii ''message'')) (ascii ''content''))))"

definition handleOpenAICompatibleText ::
  "world \<Rightarrow> js \<Rightarrow> jsstring \<Rightarrow> jsstring \<Rightarrow> jsstring \<Rightarrow> server \<Rightarrow> (thrown + jsstring) \<times> server" where
  "handleOpenAICompatibleText w body apiUrl model apiKey s =
     (if getTextTaskPrompt_throws (own_prop body (ascii ''task'')) (own_prop body (ascii ''text''))
      then (Inl (Native TypeError), s)
      else
        (let call = \<lparr>url = apiUrl, authorization = Some (ascii ''Bearer '' @ apiKey),
                      payload_model = Some model, payload_stream = Some False\<rparr>;
             s1 = s\<lparr>fetched := fetched s @ [call]\<rparr>
         in case fetch w call of
              Inl e \<Rightarrow> (Inl e, s1)
            | Inr apiResponse \<Rightarrow>
                if \<not> ok apiResponse then
                  (case text_body apiResponse of
                     Inl e \<Rightarrow> (Inl e, s1)
                   | Inr t \<Rightarrow>
                       (Inl (Error (ascii ''API error: '' @ decimal (status apiResponse)
                                     @ ascii '' '' @ t)), s1))
                else
                  (case json_body apiResponse of
                     Inl e \<Rightarrow> (Inl e, s1)
                   | Inr json \<Rightarrow> (message_content json, s1))))"

text \<open>\<open>json.candidates?.[0]?.content?.parts?.[0]?.text?.trim() || ''\<close>\<close>

definition candidates_text :: "js \<Rightarrow> thrown + jsstring" where
  "candidates_text json =
     (case get_prop json (ascii ''candidates'') of
        Inl e \<Rightarrow> Inl e
      | Inr candidates \<Rightarrow>
          trimmed_or_empty
            (opt_prop (opt_index0 (opt_prop (opt_prop (opt_index0 candidates) (ascii ''content''))
               (ascii ''parts''))) (ascii ''text'')))"

definition gemini_text_url :: "jsstring \<Rightarrow> jsstring" where
  "gemini_text_url apiKey =
     ascii ''https://generativelanguage.googleapis.com/v1beta/models/gemini-1.5-flash:generateContent?key=''
       @ apiKey"

definition handleGeminiText :: "world \<Rightarrow> js \<Rightarrow> jsstring \<Rightarrow> server \<Rightarrow> (thrown + jsstring) \<times> server" where
  "handleGeminiText w body apiKey s =
     (if getTextTaskPrompt_throws (own_prop body (ascii ''task'')) (own_prop body (ascii ''text''))
      then (Inl (Native TypeError), s)
      else
        (let call = \<lparr>url = gemini_text_url apiKey, authorization = None,
                      payload_model = None, payload_stream = None\<rparr>;
             s1 = s\<lparr>fetched := fetched s @ [call]\<rparr>
         in case fetch w call of
              Inl e \<Rightarrow> (Inl e, s1)
            | Inr apiResponse \<Rightarrow>
                if \<not> ok apiResponse then
                  (case text_body apiResponse of
                     Inl e \<Rightarrow> (Inl e, s1)
                   | Inr t \<Rightarrow>
                       (Inl (Error (ascii ''Gemini API error: '' @ decimal (status apiResponse)
                                     @ ascii '' '' @ t)), s1))
                else
                  (case json_body apiResponse of
                     Inl e \<Rightarrow> (Inl e, s1)
                   | Inr json \<Rightarrow> (candidates_text json, s1))))"

section \<open>The main handler\<close>

record request =
  req_method :: "jsstring option"
  req_body :: js

text \<open>
  A credential read from the environment and tested with \<open>if (!key) throw new Error(...)\<close>:
  an unset variable and an empty one both fail.
\<close>

definition credential :: "jsstring option \<Rightarrow> jsstring \<Rightarrow> thrown + jsstring" where
  "credential key name =
     (case key of
        None \<Rightarrow> Inl (Error (name @ ascii '' is not configured.''))
      | Some k \<Rightarrow> if k = [] then Inl (Error (name @ ascii '' is not configured.'')) else Inr k)"

text \<open>
  The \<open>switch (body.llm)\<close> of the text processing route: the credential of the provider,
  then the provider's handler. Any value other than \<open>'deepseek'\<close> and \<open>'openai'\<close> takes the
  \<open>case 'gemini': default:\<close> branch.
\<close>

definition text_switch :: "world \<Rightarrow> js \<Rightarrow> server \<Rightarrow> (thrown + jsstring) \<times> server" where
  "text_switch w body s =
     (let llm = own_prop body (ascii ''llm'') in
      if llm = JStr (ascii ''deepseek'') then
        (case credential (DEEPSEEK_API_KEY (env w)) (ascii ''DEEPSEEK_API_KEY'') of
           Inl e \<Rightarrow> (Inl e, s)
         | Inr deepseekApiKey \<Rightarrow>
             handleOpenAICompatibleText w body
               (ascii ''https://api.deepseek.com/chat/completions'')
               (ascii ''deepseek-chat'') deepseekApiKey s)
      else if llm = JStr (ascii ''openai'') then
        (case credential (OPENAI_API_KEY (env w)) (ascii ''OPENAI_API_KEY'') of
           Inl e \<Rightarrow> (Inl e, s)
         | Inr openaiApiKey \<Rightarrow>
             handleOpenAICompatibleText w body
               (ascii ''https://api.openai.com/v1/chat/completions'')
               (ascii ''gpt-4o-mini'') openaiApiKey s)
      else
        (case credential (GEMINI_API_KEY (env w)) (ascii ''GEMINI_API_KEY'') of
           Inl e \<Rightarrow> (Inl e, s)
         | Inr geminiApiKey \<Rightarrow> handleGeminiText w body geminiApiKey s))"

text \<open>The text processing route: the switch, then \<open>res.status(200).send({ result })\<close>.\<close>

definition text_route :: "world \<Rightarrow> js \<Rightarrow> server \<Rightarrow> thrown option \<times> server" where
  "text_route w body s =
     (case text_switch w body s of
        (Inl e, s1) \<Rightarrow> (Some e, s1)
      | (Inr result, s1) \<Rightarrow>
          (None, s1\<lparr>res := res_send (JObj [(ascii ''result'', JStr result)])
                              (res_status 200 (res s1))\<rparr>))"

text \<open>The \<open>switch (body.llm)\<close> of the image OCR route.\<close>

definition ocr_switch :: "world \<Rightarrow> js \<Rightarrow> server \<Rightarrow> thrown option \<times> server" where
  "ocr_switch w body s =
     (let llm = own_prop body (ascii ''llm'') in
      if llm = JStr (ascii ''deepseek'') then
        (case credential (DEEPSEEK_API_KEY (env w)) (ascii ''DEEPSEEK_API_KEY'') of
           Inl e \<Rightarrow> (Some e, s)
         | Inr deepseekApiKey \<Rightarrow>
             handleOpenAICompatibleStream w body
               (ascii ''https://api.deepseek.com/chat/completions'')
               (ascii ''deepseek-vl-chat'') deepseekApiKey s)
      else if llm = JStr (ascii ''openai'') then
        (case credential (OPENAI_API_KEY (env w)) (ascii ''OPENAI_API_KEY'') of
           Inl e \<Rightarrow> (Some e, s)
         | Inr openaiApiKey \<Rightarrow>
             handleOpenAICompatibleStream w body
               (ascii ''https://api.openai.com/v1/chat/completions'')
               (ascii ''gpt-4o'') openaiApiKey s)
      else
        (case credential (GEMINI_API_KEY (env w)) (ascii ''GEMINI_API_KEY'') of
           Inl e \<Rightarrow> (Some e, s)
         | Inr geminiApiKey \<Rightarrow> handleGeminiStream w body geminiApiKey s))"

text \<open>The image OCR route: the switch, then \<open>res.end()\<close>.\<close>

definition ocr_route :: "world \<Rightarrow> js \<Rightarrow> server \<Rightarrow> thrown option \<times> server" where
  "ocr_route w body s =
     (case ocr_switch w body s of
        (Some e, s1) \<Rightarrow> (Some e, s1)
      | (None, s1) \<Rightarrow> (None, s1\<lparr>res := res_end (res s1)\<rparr>))"

text \<open>
  The \<open>try\<close> block of \<open>handler\<close>: \<open>if (req.body.task && req.body.text)\<close> the text route,
  \<open>if (req.body.image)\<close> the OCR route, else status 400. Reading a property of a body that
  is \<open>null\<close> or \<open>undefined\<close> throws.
\<close>

definition route :: "world \<Rightarrow> js \<Rightarrow> server \<Rightarrow> thrown option \<times> server" where
  "route w body s =
     (case get_prop body (ascii ''task'') of
        Inl e \<Rightarrow> (Some e, s)
      | Inr task \<Rightarrow>
          if truthy task \<and> truthy (own_prop body (ascii ''text'')) then text_route w body s
          else if truthy (own_prop body (ascii ''image'')) then ocr_route w body s
          else (None, s\<lparr>res := res_send (JObj [(ascii ''error'', JStr (ascii ''Invalid request body.''))])
                                   (res_status 400 (res s))\<rparr>))"

text \<open>\<open>error instanceof Error ? error.message : "An unknown error occurred."\<close>\<close>

definition errorMessage :: "world \<Rightarrow> thrown \<Rightarrow> jsstring" where
  "errorMessage w e =
     (case e of
        Error m \<Rightarrow> m
      | Native k \<Rightarrow> engine_message w k
      | NonError \<Rightarrow> ascii ''An unknown error occurred.'')"

text \<open>
  The \<open>catch\<close> block of \<open>handler\<close>: status 500 with the message while no header has been
  sent, else a log line and \<open>res.end()\<close>.
\<close>

definition catch_block :: "world \<Rightarrow> thrown \<Rightarrow> server \<Rightarrow> server" where
  "catch_block w e s =
     (let s1 = console_error (FunctionError e) s
      in if \<not> headersSent (res s1) then
           s1\<lparr>res := res_send (JObj [(ascii ''error'',
                    JStr (ascii ''Error processing your request: '' @ errorMessage w e))])
                  (res_status 500 (res s1))\<rparr>
         else (console_error MidStream s1)\<lparr>res := res_end (res s1)\<rparr>)"

text \<open>The \<open>try\<close> statement: what the \<open>try\<close> block throws goes to the \<open>catch\<close> block.\<close>

fun settle :: "world \<Rightarrow> thrown option \<times> server \<Rightarrow> server" where
  "settle w (None, s) = s"
| "settle w (Some e, s) = catch_block w e s"

text \<open>
  \<open>handler(req, res)\<close>: any method other than \<open>POST\<close> is answered with status 405; a \<open>POST\<close>
  goes through the \<open>try\<close> statement.
\<close>

definition handler :: "world \<Rightarrow> request \<Rightarrow> server" where
  "handler w req =
     (if req_method req \<noteq> Some (ascii ''POST'') then
        new_server\<lparr>res := res_send (JObj [(ascii ''error'', JStr (ascii ''Method Not Allowed''))])
                            (res_status 405
                               (res_setHeader (ascii ''Allow'') [ascii ''POST''] new_response))\<rparr>
      else settle w (route w (req_body req) new_server))"

section \<open>Streams and frames, as the properties speak of them\<close>

text \<open>The bytes of a whole input decoded at once, by one call \<open>decode(bytes)\<close> of a new decoder.\<close>

definition utf8_text :: "byte list \<Rightarrow> jsstring" where
  "utf8_text bytes = snd (decode new_TextDecoder bytes False)"

text \<open>The text a decoder has produced after the reads of a stream, decoded with \<open>stream: true\<close>.\<close>

fun stream_text :: "text_decoder \<Rightarrow> byte list list \<Rightarrow> jsstring" where
  "stream_text td [] = []"
| "stream_text td (val # rest) =
     (let (td', piece) = decode td val True in piece @ stream_text td' rest)"

text \<open>
  An OpenAI-compatible event stream as text: one event \<open>data: <payload>\<close> per frame, each
  followed by an empty line.
\<close>

definition sse_event :: "jsstring \<Rightarrow> jsstring" where
  "sse_event payload = ascii ''data: '' @ payload @ [newline, newline]"

definition sse_text :: "jsstring list \<Rightarrow> jsstring" where
  "sse_text payloads = concat (map sse_event payloads)"

text \<open>The end-of-stream sentinel: a payload that is \<open>[DONE]\<close>, white space around it aside.\<close>

definition is_sentinel :: "jsstring \<Rightarrow> bool" where
  "is_sentinel payload \<longleftrightarrow> trim payload = ascii ''[DONE]''"

text \<open>
  The \<open>delta.content\<close> of a chat completion chunk, read off the shape of the object:
  \<open>{"choices": [{"delta": {"content": "..."}}, ...]}\<close>. A chunk with no choice, or whose
  first choice has no delta or a \<open>null\<close> one, or whose delta has no content or a \<open>null\<close>
  one, carries the empty text. \<open>None\<close> for a value of another shape.
\<close>

definition chunk_text :: "js \<Rightarrow> jsstring option" where
  "chunk_text json =
     (case json of
        JObj props \<Rightarrow>
          (case map_of props (ascii ''choices'') of
             Some (JArr []) \<Rightarrow> Some []
           | Some (JArr (JObj choice # others)) \<Rightarrow>
               (case map_of choice (ascii ''delta'') of
                  None \<Rightarrow> Some []
                | Some JNull \<Rightarrow> Some []
                | Some (JObj delta) \<Rightarrow>
                    (case map_of delta (ascii ''content'') of
                       None \<Rightarrow> Some []
                     | Some JNull \<Rightarrow> Some []
                     | Some (JStr c) \<Rightarrow> Some c
                     | Some other \<Rightarrow> None)
                | Some other \<Rightarrow> None)
           | other \<Rightarrow> None)
      | other \<Rightarrow> None)"

text \<open>The text a frame carries: that of the chunk its payload parses to, if it does.\<close>

definition frame_text :: "world \<Rightarrow> jsstring \<Rightarrow> jsstring option" where
  "frame_text w payload =
     (case json_parse w payload of Inl e \<Rightarrow> None | Inr json \<Rightarrow> chunk_text json)"

text \<open>
  The text of a Gemini stream chunk, read off the shape of the value: an array whose
  first element is \<open>{"candidates": [{"content": {"parts": [{"text": "..."}, ...]}}, ...]}\<close>.
  A chunk in which the array, the candidates or the parts are empty, or in which a
  property on the way to the text is missing or \<open>null\<close>, carries the empty text. \<open>None\<close>
  for a value of another shape.
\<close>

definition gemini_chunk_text :: "js \<Rightarrow> jsstring option" where
  "gemini_chunk_text json =
     (case json of
        JArr [] \<Rightarrow> Some []
      | JArr (JObj props # others) \<Rightarrow>
          (case map_of props (ascii ''candidates'') of
             None \<Rightarrow> Some []
           | Some JNull \<Rightarrow> Some []
           | Some (JArr []) \<Rightarrow> Some []
           | Some (JArr (JObj candidate # others)) \<Rightarrow>
               (case map_of candidate (ascii ''content'') of
                  None \<Rightarrow> Some []
                | Some JNull \<Rightarrow> Some []
                | Some (JObj content) \<Rightarrow>
                    (case map_of content (ascii ''parts'') of
                       None \<Rightarrow> Some []
                     | Some JNull \<Rightarrow> Some []
                     | Some (JArr []) \<Rightarrow> Some []
                     | Some (JArr (JObj part # others)) \<Rightarrow>
                         (case map_of part (ascii ''text'') of
                            None \<Rightarrow> Some []
                          | Some JNull \<Rightarrow> Some []
                          | Some (JStr t) \<Rightarrow> Some t
                          | Some other \<Rightarrow> None)
                     | Some other \<Rightarrow> None)
                | Some other \<Rightarrow> None)
           | Some other \<Rightarrow> None)
      | other \<Rightarrow> None)"

text \<open>The text a read of a Gemini stream carries, decoded and parsed on its own.\<close>

definition read_text :: "world \<Rightarrow> byte list \<Rightarrow> jsstring option" where
  "read_text w val =
     (case json_parse w (strip_data_prefix (utf8_text val)) of
        Inl e \<Rightarrow> None
      | Inr json \<Rightarrow> gemini_chunk_text json)"

text \<open>The same with the empty text where there is none, for concatenation.\<close>

definition delta_text :: "world \<Rightarrow> jsstring \<Rightarrow> jsstring" where
  "delta_text w payload = (case frame_text w payload of Some c \<Rightarrow> c | None \<Rightarrow> [])"

definition part_text :: "world \<Rightarrow> byte list \<Rightarrow> jsstring" where
  "part_text w val = (case read_text w val of Some t \<Rightarrow> t | None \<Rightarrow> [])"

text \<open>
  The fragments a sequence of frames carries: the texts of the frames other than the
  sentinel that are not empty, in order. A frame whose payload does not parse, and a
  chunk with an empty or absent text, carry none.
\<close>

definition fragments :: "world \<Rightarrow> jsstring list \<Rightarrow> jsstring list" where
  "fragments w payloads =
     filter (\<lambda>c. c \<noteq> []) (map (delta_text w) (filter (\<lambda>p. \<not> is_sentinel p) payloads))"

definition read_fragments :: "world \<Rightarrow> byte list list \<Rightarrow> jsstring list" where
  "read_fragments w vals = filter (\<lambda>t. t \<noteq> []) (map (part_text w) vals)"

section \<open>Requests, as the properties speak of them\<close>

text \<open>A field is present in a body when the body is an object that has the property.\<close>

definition has_field :: "js \<Rightarrow> jsstring \<Rightarrow> bool" where
  "has_field body k = (case body of JObj kvs \<Rightarrow> map_of kvs k \<noteq> None | other \<Rightarrow> False)"

text \<open>
  The branch of the handler's \<open>try\<close> block a body takes: the conditions of its two \<open>if\<close>
  statements, in their order.
\<close>

datatype mode = TextTask | Ocr | Invalid

definition request_mode :: "js \<Rightarrow> mode" where
  "request_mode body =
     (if truthy (own_prop body (ascii ''task'')) \<and> truthy (own_prop body (ascii ''text'')) then TextTask
      else if truthy (own_prop body (ascii ''image'')) then Ocr
      else Invalid)"

text \<open>The provider a value of \<open>llm\<close> selects, its environment variable and its credential.\<close>

datatype provider = Deepseek | Openai | Gemini

definition provider_of :: "js \<Rightarrow> provider" where
  "provider_of llm =
     (if llm = JStr (ascii ''deepseek'') then Deepseek
      else if llm = JStr (ascii ''openai'') then Openai
      else Gemini)"

fun key_name :: "provider \<Rightarrow> jsstring" where
  "key_name Deepseek = ascii ''DEEPSEEK_API_KEY''"
| "key_name Openai = ascii ''OPENAI_API_KEY''"
| "key_name Gemini = ascii ''GEMINI_API_KEY''"

fun provider_key :: "environment \<Rightarrow> provider \<Rightarrow> jsstring option" where
  "provider_key e Deepseek = DEEPSEEK_API_KEY e"
| "provider_key e Openai = OPENAI_API_KEY e"
| "provider_key e Gemini = GEMINI_API_KEY e"

text \<open>The call the OCR route makes to a provider, and how its error message starts.\<close>

fun ocr_call :: "provider \<Rightarrow> jsstring \<Rightarrow> fetch_call" where
  "ocr_call Deepseek k =
     \<lparr>url = ascii ''https://api.deepseek.com/chat/completions'',
      authorization = Some (ascii ''Bearer '' @ k),
      payload_model = Some (ascii ''deepseek-vl-chat''), payload_stream = Some True\<rparr>"
| "ocr_call Openai k =
     \<lparr>url = ascii ''https://api.openai.com/v1/chat/completions'',
      authorization = Some (ascii ''Bearer '' @ k),
      payload_model = Some (ascii ''gpt-4o''), payload_stream = Some True\<rparr>"
| "ocr_call Gemini k =
     \<lparr>url = gemini_stream_url k, authorization = None,
      payload_model = None, payload_stream = None\<rparr>"

fun api_error_prefix :: "provider \<Rightarrow> jsstring" where
  "api_error_prefix Gemini = ascii ''Gemini API error: ''"
| "api_error_prefix p = ascii ''API error: ''"

text \<open>
  Whether building the payload of the OCR call throws: the OpenAI-compatible payload
  interpolates \<open>body.mimeType\<close> and \<open>body.image\<close>, the Gemini payload interpolates nothing.
\<close>

fun ocr_payload_throws :: "provider \<Rightarrow> js \<Rightarrow> bool" where
  "ocr_payload_throws Gemini body = False"
| "ocr_payload_throws p body =
     (template_throws (own_prop body (ascii ''mimeType''))
        \<or> template_throws (own_prop body (ascii ''image'')))"

text \<open>The response with a JSON error body that \<open>res.status(code).send({ error })\<close> produces.\<close>

definition error_response :: "nat \<Rightarrow> jsstring \<Rightarrow> response" where
  "error_response code message =
     \<lparr>statusCode = code, headers = [], headersSent = True, written = [],
      sent = Some (JObj [(ascii ''error'', JStr message)]), ended = True\<rparr>"

text \<open>The same world with every body delivered to its normal end: no read is rejected.\<close>

definition without_read_failure :: "world \<Rightarrow> world" where
  "without_read_failure w =
     w\<lparr>fetch := (\<lambda>call. case fetch w call of
                          Inl e \<Rightarrow> Inl e
                        | Inr r \<Rightarrow> Inr (r\<lparr>read_failure := None\<rparr>))\<rparr>"

text \<open>
  What a streaming handler returns, with and without the rejected read: either it fails
  before anything is written, the same way in both worlds, or it reaches its loop, and
  then the two runs end in the same state.
\<close>

definition same_but_failure ::
  "thrown option \<times> server \<Rightarrow> thrown option \<times> server \<Rightarrow> server \<Rightarrow> bool" where
  "same_but_failure run run' s \<longleftrightarrow>
     (fst run \<noteq> None \<and> written (res (snd run)) = written (res s)
        \<and> headersSent (res (snd run)) = headersSent (res s)) \<or>
     (fst run' = None \<and> snd run' = snd run
        \<and> (written (res (snd run)) \<noteq> [] \<longrightarrow> headersSent (res (snd run))))"

section \<open>Example inputs\<close>

definition ascii_bytes :: "string \<Rightarrow> byte list" where
  "ascii_bytes s = map of_char s"

definition example_first :: jsstring where
  \<open>example_first = ascii ''{"choices":[{"delta":{"content":"Caf"}}]}''\<close>

definition example_second :: jsstring where
  \<open>example_second = ascii ''{"choices":[{"delta":{"content":"'' @ [0xE9] @ ascii ''"}}]}''\<close>

definition example_chunk :: "jsstring \<Rightarrow> js" where
  "example_chunk c =
     JObj [(ascii ''choices'', JArr [JObj [(ascii ''delta'', JObj [(ascii ''content'', JStr c)])]])]"

definition example_part :: jsstring where
  \<open>example_part = ascii ''[{"candidates":[{"content":{"parts":[{"text":"Hel"}]}}]}]''\<close>

definition example_other_part :: jsstring where
  \<open>example_other_part = ascii ''[{"candidates":[{"content":{"parts":[{"text":"lo"}]}}]}]''\<close>

definition example_candidates :: "jsstring \<Rightarrow> js" where
  "example_candidates t =
     JArr [JObj [(ascii ''candidates'', JArr [JObj [(ascii ''content'',
       JObj [(ascii ''parts'', JArr [JObj [(ascii ''text'', JStr t)]])])]])]]"

definition example_parse :: "jsstring \<Rightarrow> thrown + js" where
  "example_parse x =
     (if x = example_first then Inr (example_chunk (ascii ''Caf''))
      else if x = example_second then Inr (example_chunk [0xE9])
      else if x = example_part then Inr (example_candidates (ascii ''Hel''))
      else if x = example_other_part then Inr (example_candidates (ascii ''lo''))
      else Inl (Native SyntaxError))"

definition example_reads :: "byte list list" where
  \<open>example_reads =
     [ascii_bytes ''data: {"choices":[{"delta":{"content":"Caf"}}]}'' @ [0x0A, 0x0A]
        @ ascii_bytes ''data: {"choices":[{"delta":{"content":"'' @ [0xC3],
      [0xA9] @ ascii_bytes ''"}}]}'' @ [0x0A, 0x0A] @ ascii_bytes ''data: [DONE]'' @ [0x0A, 0x0A]]\<close>

definition example_upstream :: upstream_response where
  "example_upstream = \<lparr>ok = True, status = 200, text_body = Inr [], json_body = Inl (Native SyntaxError),
      reads = example_reads, read_failure = None\<rparr>"

definition example_world :: world where
  "example_world =
     \<lparr>env = \<lparr>DEEPSEEK_API_KEY = Some (ascii ''sk-1''), OPENAI_API_KEY = None, GEMINI_API_KEY = None\<rparr>,
      fetch = (\<lambda>c. Inr example_upstream),
      json_parse = example_parse,
      engine_message = (\<lambda>k. ascii ''engine'')\<rparr>"

definition example_unterminated :: "byte list list" where
  \<open>example_unterminated =
     [ascii_bytes ''data: {"choices":[{"delta":{"content":"Caf"}}]}'' @ [0x0A, 0x0A] @ ascii_bytes ''data: {"choi'',
      ascii_bytes ''ces":[{"delta":{"content":"Caf"}}]}'']\<close>

definition example_terminated :: "byte list list" where
  \<open>example_terminated = [ascii_bytes ''data: {"choices":[{"delta":{"content":"Caf"}}]}'' @ [0x0A, 0x0A]]\<close>

definition example_broken :: jsstring where
  \<open>example_broken = ascii ''{"choices":[{"del''\<close>

definition example_read :: "byte list" where
  \<open>example_read = ascii_bytes ''[{"candidates":[{"content":{"parts":[{"text":"Hel"}]}}]}]''\<close>

definition example_broken_read :: "byte list" where
  \<open>example_broken_read = ascii_bytes ''[{"candidates":[{"conte''\<close>

definition example_other_read :: "byte list" where
  \<open>example_other_read = ascii_bytes ''[{"candidates":[{"content":{"parts":[{"text":"lo"}]}}]}]''\<close>

definition post :: "js \<Rightarrow> request" where
  "post body = \<lparr>req_method = Some (ascii ''POST''), req_body = body\<rparr>"

definition example_empty_text :: js where
  "example_empty_text = JObj [(ascii ''task'', JStr (ascii ''title'')), (ascii ''text'', JStr [])]"

definition example_image :: "jsstring \<Rightarrow> js" where
  "example_image llm = JObj [(ascii ''image'', JStr (ascii ''aGk='')), (ascii ''llm'', JStr llm)]"


text \<open>A provider that answers 401, one whose body breaks off after a read, and the same body ending normally.\<close>

definition example_denied :: upstream_response where
  "example_denied = \<lparr>ok = False, status = 401, text_body = Inr (ascii ''denied''),
      json_body = Inl (Native SyntaxError), reads = [], read_failure = None\<rparr>"

definition example_cut_off :: upstream_response where
  "example_cut_off = \<lparr>ok = True, status = 200, text_body = Inr [], json_body = Inl (Native SyntaxError),
      reads = example_terminated, read_failure = Some (Error (ascii ''terminated''))\<rparr>"

definition example_complete :: upstream_response where
  "example_complete = example_cut_off\<lparr>read_failure := None\<rparr>"

definition example_world_with :: "upstream_response \<Rightarrow> world" where
  "example_world_with r = example_world\<lparr>fetch := (\<lambda>call. Inr r)\<rparr>"


text \<open>
  A frame that opens a completion with the role and no content, a Gemini chunk with an
  empty text, and streams with them: one with text frames, a frame that does not parse
  and the sentinel, and one with nothing but the role frame and a frame that does not
  parse.
\<close>

definition example_role :: jsstring where
  \<open>example_role = ascii ''{"choices":[{"delta":{"role":"assistant"}}]}''\<close>

definition example_empty_part :: jsstring where
  \<open>example_empty_part = ascii ''[{"candidates":[{"content":{"parts":[{"text":""}]}}]}]''\<close>

definition example_role_world :: world where
  "example_role_world =
     example_world\<lparr>json_parse := (\<lambda>x.
        if x = example_role then
          Inr (JObj [(ascii ''choices'', JArr [JObj [(ascii ''delta'',
                 JObj [(ascii ''role'', JStr (ascii ''assistant''))])]])])
        else if x = example_empty_part then Inr (example_candidates [])
        else example_parse x)\<rparr>"

definition example_mixed :: "byte list list" where
  \<open>example_mixed =
     [ascii_bytes ''data: {"choices":[{"delta":{"role":"assistant"}}]}'' @ [0x0A, 0x0A]
        @ ascii_bytes ''data: {"choices":[{"delta":{"content":"Caf"}}]}'' @ [0x0A, 0x0A]
        @ ascii_bytes ''data: {"choices":[{"del'' @ [0x0A, 0x0A]
        @ ascii_bytes ''data: {"choices":[{"delta":{"content":"'' @ [0xC3],
      [0xA9] @ ascii_bytes ''"}}]}'' @ [0x0A, 0x0A]
        @ ascii_bytes ''data: [DONE]'' @ [0x0A, 0x0A]]\<close>

definition example_role_then_broken :: "byte list list" where
  \<open>example_role_then_broken =
     [ascii_bytes ''data: {"choices":[{"delta":{"role":"assistant"}}]}'' @ [0x0A, 0x0A]
        @ ascii_bytes ''data: {"choices":[{"del'' @ [0x0A, 0x0A]]\<close>

definition example_empty_read :: "byte list" where
  \<open>example_empty_read = ascii_bytes ''[{"candidates":[{"content":{"parts":[{"text":""}]}}]}]''\<close>

section \<open>Properties of the binarization pass\<close>

lemma length_binarize: "length (binarize data) = length data"
  by (induction data rule: binarize.induct) (simp_all add: Let_def)

lemma binarize_pixel:
  "length data = 4 * n \<Longrightarrow> p < n \<Longrightarrow>
     binarize data ! (4 * p) = threshold (data ! (4 * p)) (data ! (4 * p + 1)) (data ! (4 * p + 2)) \<and>
     binarize data ! (4 * p + 1) = threshold (data ! (4 * p)) (data ! (4 * p + 1)) (data ! (4 * p + 2)) \<and>
     binarize data ! (4 * p + 2) = threshold (data ! (4 * p)) (data ! (4 * p + 1)) (data ! (4 * p + 2)) \<and>
     binarize data ! (4 * p + 3) = data ! (4 * p + 3)"
proof (induction data arbitrary: n p rule: binarize.induct)
  case (1 r g b a rest)
  show ?case
  proof (cases p)
    case 0
    then show ?thesis by (simp add: Let_def)
  next
    case (Suc q)
    from "1.prems" Suc obtain m where m: "n = Suc m" "q < m"
      by (cases n) auto
    with "1.prems" have len: "length rest = 4 * m" by simp
    have idx: "4 * p = Suc (Suc (Suc (Suc (4 * q))))" using Suc by simp
    from "1.IH" [OF refl len m(2)] show ?thesis
      by (simp add: idx Let_def add.commute)
  qed
qed auto

text \<open>
  Claim C4. For a pixel buffer of \<open>n\<close> pixels (four bytes each), every pixel \<open>p\<close> of the
  binarized buffer has its red, green and blue bytes all equal to 255 when the mean of the
  three colour bytes it had before exceeds 128 and all equal to 0 otherwise, and its
  alpha byte is the one it had before. The buffer keeps its length.
\<close>

theorem binarize_channels_and_alpha:
  assumes "length data = 4 * n" and "p < n"
  shows "length (binarize data) = length data \<and>
     binarize data ! (4 * p) \<in> {0, 255} \<and>
     binarize data ! (4 * p + 1) = binarize data ! (4 * p) \<and>
     binarize data ! (4 * p + 2) = binarize data ! (4 * p) \<and>
     (binarize data ! (4 * p) = 255 \<longleftrightarrow>
        (real (unat (data ! (4 * p))) + real (unat (data ! (4 * p + 1)))
           + real (unat (data ! (4 * p + 2)))) / 3 > 128) \<and>
     binarize data ! (4 * p + 3) = data ! (4 * p + 3)"
proof -
  note px = binarize_pixel [OF assms]
  have "binarize data ! (4 * p) \<in> {0, 255}"
    using px by (simp add: threshold_def Let_def)
  moreover have "binarize data ! (4 * p) = 255 \<longleftrightarrow>
           (real (unat (data ! (4 * p))) + real (unat (data ! (4 * p + 1)))
              + real (unat (data ! (4 * p + 2)))) / 3 > 128"
    using px by (simp add: threshold_def Let_def)
  ultimately show ?thesis
    using px length_binarize [of data] by simp
qed

theorem binarize_channels_and_alpha_witness:
  "length [200, 180, 190, 77, 10, 20, 30, 255 :: byte] = 4 * 2 \<and> (1::nat) < 2 \<and>
   binarize [200, 180, 190, 77, 10, 20, 30, 255] = [255, 255, 255, 77, 0, 0, 0, 255] \<and>
   binarize [200, 180, 190, 77, 10, 20, 30, 255] ! (4 * 1) \<in> {0, 255} \<and>
   binarize [200, 180, 190, 77, 10, 20, 30, 255] ! (4 * 1 + 3) = 255"
  using binarize_channels_and_alpha [of "[200, 180, 190, 77, 10, 20, 30, 255]" 2 1]
  by (simp add: threshold_def Let_def)

section \<open>The decoder and the line buffer\<close>

lemma utf8_bytes_append:
  "utf8_bytes d (xs @ ys) =
     (let (d1, o1) = utf8_bytes d xs; (d2, o2) = utf8_bytes d1 ys in (d2, o1 @ o2))"
  by (induction xs arbitrary: d) (simp_all add: split_beta Let_def)

lemma serialize_append:
  "serialize seen (xs @ ys) =
     (let (s1, a) = serialize seen xs; (s2, b) = serialize s1 ys in (s2, a @ b))"
  by (induction xs arbitrary: seen) (simp_all add: split_beta Let_def)

lemma decode_stream_flag:
  "do_not_flush (fst (decode td val True))"
  by (simp add: decode_def split_beta Let_def)

lemma decode_stream_append:
  "do_not_flush td \<Longrightarrow>
   decode td (xs @ ys) True =
     (let (td1, a) = decode td xs True; (td2, b) = decode td1 ys True in (td2, a @ b))"
  by (simp add: decode_def utf8_bytes_append serialize_append split_beta Let_def)

lemma decode_stream_nil: "do_not_flush td \<Longrightarrow> decode td [] True = (td, [])"
  by (simp add: decode_def)

lemma stream_text_concat:
  "do_not_flush td \<Longrightarrow> stream_text td chunks = snd (decode td (concat chunks) True)"
proof (induction chunks arbitrary: td)
  case Nil
  then show ?case by (simp add: decode_stream_nil)
next
  case (Cons c cs)
  have "do_not_flush (fst (decode td c True))" by (rule decode_stream_flag)
  from Cons.IH [OF this] Cons.prems show ?case
    by (simp add: decode_stream_append split_beta Let_def)
qed

lemma decode_new_stream:
  "decode new_TextDecoder val True = decode (new_TextDecoder\<lparr>do_not_flush := True\<rparr>) val True"
  by (simp add: decode_def new_TextDecoder_def)

lemma stream_text_new:
  "stream_text new_TextDecoder chunks = snd (decode new_TextDecoder (concat chunks) True)"
proof (cases chunks)
  case Nil
  then show ?thesis by (simp add: decode_def new_TextDecoder_def)
next
  case (Cons c cs)
  have "stream_text new_TextDecoder chunks = stream_text (new_TextDecoder\<lparr>do_not_flush := True\<rparr>) chunks"
    using Cons by (simp add: decode_new_stream)
  also have "\<dots> = snd (decode (new_TextDecoder\<lparr>do_not_flush := True\<rparr>) (concat chunks) True)"
    by (rule stream_text_concat) simp
  finally show ?thesis by (simp add: decode_new_stream)
qed

lemma utf8_text_stream:
  "utf8_text bytes = snd (decode new_TextDecoder bytes True) \<or>
   utf8_text bytes = snd (decode new_TextDecoder bytes True) @ [0xFFFD]"
  by (auto simp add: utf8_text_def decode_def new_TextDecoder_def utf8_end_def serialize_append
      split_beta Let_def replacement_def utf16_def)

lemma js_split_ne [simp]: "js_split c xs \<noteq> []"
  by (induction xs) (auto split: list.splits)

lemma js_split_append:
  "js_split c (xs @ ys) = butlast (js_split c xs) @ js_split c (last (js_split c xs) @ ys)"
proof (induction xs)
  case Nil
  then show ?case by simp
next
  case (Cons x xs)
  show ?case
  proof (cases "x = c")
    case True
    with Cons show ?thesis by simp
  next
    case False
    obtain l ls where ls: "js_split c xs = l # ls"
      using js_split_ne [of c xs] by (cases "js_split c xs") auto
    show ?thesis
    proof (cases ls)
      case Nil
      with Cons ls False show ?thesis by simp
    next
      case (Cons m ms)
      with Cons.IH ls False show ?thesis by simp
    qed
  qed
qed

lemma js_split_no_sep: "c \<notin> set xs \<Longrightarrow> js_split c xs = [xs]"
  by (induction xs) auto

lemma last_js_split_no_sep: "c \<notin> set (last (js_split c xs))"
proof (induction xs)
  case Nil
  then show ?case by simp
next
  case (Cons x xs)
  then show ?case by (cases "js_split c xs") (auto split: if_splits)
qed

lemma openai_loop_lines:
  "newline \<notin> set buffer \<Longrightarrow>
   openai_loop w td buffer chunks failure s =
     (failure, fold (sse_line w) (butlast (js_split newline (buffer @ stream_text td chunks))) s)"
proof (induction chunks arbitrary: td buffer s)
  case Nil
  then show ?case by (simp add: js_split_no_sep)
next
  case (Cons c cs)
  obtain td' piece where d: "decode td c True = (td', piece)" by (cases "decode td c True")
  let ?lines = "js_split newline (buffer @ piece)"
  have "newline \<notin> set (last ?lines)" by (rule last_js_split_no_sep)
  from Cons.IH [OF this]
  have "openai_loop w td' (last ?lines) cs failure (fold (sse_line w) (butlast ?lines) s) =
          (failure, fold (sse_line w) (butlast (js_split newline (last ?lines @ stream_text td' cs)))
             (fold (sse_line w) (butlast ?lines) s))" .
  moreover have "js_split newline (buffer @ piece @ stream_text td' cs) =
      butlast ?lines @ js_split newline (last ?lines @ stream_text td' cs)"
    using js_split_append [of newline "buffer @ piece" "stream_text td' cs"] by simp
  ultimately show ?case
    by (simp add: d Let_def butlast_append)
qed

section \<open>Event streams\<close>

lemma newline_notin_data: "newline \<notin> set (ascii ''data: '')"
  by (simp add: ascii_def newline_def)

lemma js_split_at_sep: "c \<notin> set l \<Longrightarrow> js_split c (l @ c # rest) = l # js_split c rest"
  by (induction l) (auto split: list.splits)

lemma js_split_sse_text:
  "\<forall>p \<in> set payloads. newline \<notin> set p \<Longrightarrow>
   js_split newline (sse_text payloads @ rest) =
     concat (map (\<lambda>p. [ascii ''data: '' @ p, []]) payloads) @ js_split newline rest"
proof (induction payloads)
  case Nil
  then show ?case by (simp add: sse_text_def)
next
  case (Cons p ps)
  have nl: "newline \<notin> set (ascii ''data: '' @ p)"
    using Cons.prems newline_notin_data by simp
  have "sse_text (p # ps) @ rest = (ascii ''data: '' @ p) @ newline # ([] @ newline # (sse_text ps @ rest))"
    by (simp add: sse_text_def sse_event_def)
  then have "js_split newline (sse_text (p # ps) @ rest) =
      (ascii ''data: '' @ p) # [] # js_split newline (sse_text ps @ rest)"
    using js_split_at_sep [OF nl] js_split_at_sep [of newline "[]"] by simp
  with Cons show ?case by simp
qed

lemma sse_line_data: "sse_line w (ascii ''data: '' @ p) s = sse_data w p s"
  by (simp add: sse_line_def starts_with_def ascii_def)

lemma sse_line_empty: "sse_line w [] s = s"
  by (simp add: sse_line_def starts_with_def ascii_def)

lemma fold_sse_frames:
  "fold (sse_line w) (concat (map (\<lambda>p. [ascii ''data: '' @ p, []]) payloads)) s =
     fold (sse_data w) payloads s"
  by (induction payloads arbitrary: s) (simp_all add: sse_line_data sse_line_empty)

lemma sse_data_sentinel: "is_sentinel p \<Longrightarrow> sse_data w p s = s"
  by (simp add: sse_data_def is_sentinel_def)

lemma delta_content_chunk:
  "chunk_text json = Some c \<Longrightarrow>
     delta_content json = Inr (JStr c) \<or> (c = [] \<and> (\<exists>v. delta_content json = Inr v \<and> \<not> truthy v))"
  by (auto simp add: chunk_text_def delta_content_def get_prop_def get_index0_def opt_prop_def
      own_prop_def own_index0_def split: js.splits option.splits list.splits)

lemma sse_data_frame:
  assumes "\<not> is_sentinel p" and "frame_text w p = Some c"
  shows "res (sse_data w p s) = (if c = [] then res s else res_write c (res s))"
    and "fetched (sse_data w p s) = fetched s"
    and "parsed (sse_data w p s) = parsed s @ [p]"
    and "console (sse_data w p s) = console s"
proof -
  from assms(2) obtain json where j: "json_parse w p = Inr json" "chunk_text json = Some c"
    by (auto simp add: frame_text_def split: sum.splits)
  from delta_content_chunk [OF j(2)] assms(1) j(1)
  show "res (sse_data w p s) = (if c = [] then res s else res_write c (res s))"
    and "fetched (sse_data w p s) = fetched s"
    and "parsed (sse_data w p s) = parsed s @ [p]"
    and "console (sse_data w p s) = console s"
    by (auto simp add: sse_data_def is_sentinel_def JSON_parse_def write_if_truthy_def)
qed

lemma sse_data_malformed:
  assumes "\<not> is_sentinel p" and "json_parse w p = Inl e"
  shows "sse_data w p s = s\<lparr>parsed := parsed s @ [p], console := console s @ [StreamJsonError e]\<rparr>"
  using assms by (simp add: sse_data_def is_sentinel_def JSON_parse_def console_error_def)

lemma sse_data_parsed:
  "\<exists>ps. parsed (sse_data w p s) = parsed s @ ps \<and> (\<forall>x \<in> set ps. \<not> is_sentinel x)"
  by (auto simp add: sse_data_def is_sentinel_def JSON_parse_def console_error_def
      write_if_truthy_def split: sum.splits js.splits)

lemma sse_line_parsed:
  "\<exists>ps. parsed (sse_line w l s) = parsed s @ ps \<and> (\<forall>x \<in> set ps. \<not> is_sentinel x)"
  using sse_data_parsed [of w "drop 6 l" s] by (simp add: sse_line_def)

lemma fold_sse_line_parsed:
  "\<exists>ps. parsed (fold (sse_line w) ls s) = parsed s @ ps \<and> (\<forall>x \<in> set ps. \<not> is_sentinel x)"
proof (induction ls arbitrary: s)
  case Nil
  then show ?case by simp
next
  case (Cons l ls)
  obtain ps where ps: "parsed (sse_line w l s) = parsed s @ ps" "\<forall>x \<in> set ps. \<not> is_sentinel x"
    using sse_line_parsed by blast
  obtain qs where qs: "parsed (fold (sse_line w) ls (sse_line w l s)) = parsed (sse_line w l s) @ qs"
      "\<forall>x \<in> set qs. \<not> is_sentinel x"
    using Cons.IH by blast
  show ?case
    by (rule exI [of _ "ps @ qs"]) (use ps qs in auto)
qed

lemma sse_text_last: "payloads \<noteq> [] \<Longrightarrow> last (sse_text payloads) = newline"
proof (induction payloads)
  case Nil
  then show ?case by simp
next
  case (Cons p ps)
  show ?case
  proof (cases ps)
    case Nil
    then show ?thesis by (simp add: sse_text_def sse_event_def)
  next
    case (Cons q qs)
    then have "sse_text ps \<noteq> []" by (simp add: sse_text_def sse_event_def)
    with Cons.IH Cons show ?thesis by (simp add: sse_text_def)
  qed
qed

lemma stream_text_is_sse_text:
  assumes "utf8_text (concat chunks) = sse_text payloads"
  shows "stream_text new_TextDecoder chunks = sse_text payloads"
proof -
  let ?S = "snd (decode new_TextDecoder (concat chunks) True)"
  have S: "stream_text new_TextDecoder chunks = ?S" by (rule stream_text_new)
  from utf8_text_stream [of "concat chunks"] show ?thesis
  proof
    assume "utf8_text (concat chunks) = ?S"
    with assms S show ?thesis by simp
  next
    assume rep: "utf8_text (concat chunks) = ?S @ [0xFFFD]"
    with assms have eq: "sse_text payloads = ?S @ [0xFFFD]" by simp
    then have "payloads \<noteq> []" by (auto simp add: sse_text_def)
    from sse_text_last [OF this] eq have False by (simp add: newline_def)
    then show ?thesis ..
  qed
qed

lemma lines_of_sse_text:
  assumes "\<forall>p \<in> set payloads. newline \<notin> set p"
  shows "butlast (js_split newline (sse_text payloads)) =
           concat (map (\<lambda>p. [ascii ''data: '' @ p, []]) payloads)"
  using js_split_sse_text [OF assms, of "[]"] by simp

lemma openai_loop_sse:
  assumes "utf8_text (concat chunks) = sse_text payloads"
    and "\<forall>p \<in> set payloads. newline \<notin> set p"
  shows "openai_loop w new_TextDecoder [] chunks failure s = (failure, fold (sse_data w) payloads s)"
  using openai_loop_lines [of "[]" w new_TextDecoder chunks failure s]
  by (simp add: stream_text_is_sse_text [OF assms(1)] lines_of_sse_text [OF assms(2)] fold_sse_frames)

lemma fold_sse_data_text:
  assumes "\<forall>p \<in> set payloads. is_sentinel p \<or> frame_text w p \<noteq> None"
  shows "concat (written (res (fold (sse_data w) payloads s))) =
           concat (written (res s)) @
           concat (map (delta_text w) (filter (\<lambda>p. \<not> is_sentinel p) payloads))"
  using assms
proof (induction payloads arbitrary: s)
  case Nil
  then show ?case by simp
next
  case (Cons p ps)
  show ?case
  proof (cases "is_sentinel p")
    case True
    with Cons show ?thesis by (simp add: sse_data_sentinel)
  next
    case False
    with Cons.prems obtain c where c: "frame_text w p = Some c" by auto
    have "concat (written (res (sse_data w p s))) = concat (written (res s)) @ c"
      by (simp add: sse_data_frame(1) [OF False c] res_write_def)
    with Cons False c show ?thesis by (simp add: delta_text_def)
  qed
qed

lemma fold_sse_data_parsed:
  "\<exists>ps. parsed (fold (sse_data w) payloads s) = parsed s @ ps \<and> (\<forall>x \<in> set ps. \<not> is_sentinel x)"
proof (induction payloads arbitrary: s)
  case Nil
  then show ?case by simp
next
  case (Cons l ls)
  obtain ps where ps: "parsed (sse_data w l s) = parsed s @ ps" "\<forall>x \<in> set ps. \<not> is_sentinel x"
    using sse_data_parsed by blast
  obtain qs where qs: "parsed (fold (sse_data w) ls (sse_data w l s)) = parsed (sse_data w l s) @ qs"
      "\<forall>x \<in> set qs. \<not> is_sentinel x"
    using Cons.IH by blast
  show ?case
    by (rule exI [of _ "ps @ qs"]) (use ps qs in auto)
qed

lemma handleOpenAICompatibleStream_ok:
  assumes "\<not> template_throws (own_prop body (ascii ''mimeType''))"
    and "\<not> template_throws (own_prop body (ascii ''image''))"
    and "fetch w \<lparr>url = apiUrl, authorization = Some (ascii ''Bearer '' @ apiKey),
                      payload_model = Some model, payload_stream = Some True\<rparr> = Inr r"
    and "ok r"
  shows "handleOpenAICompatibleStream w body apiUrl model apiKey s =
     openai_loop w new_TextDecoder [] (reads r) (read_failure r)
       (s\<lparr>fetched := fetched s @ [\<lparr>url = apiUrl, authorization = Some (ascii ''Bearer '' @ apiKey),
                      payload_model = Some model, payload_stream = Some True\<rparr>],
           res := res_setHeader (ascii ''Content-Type'') [ascii ''text/plain; charset=utf-8''] (res s)\<rparr>)"
  using assms by (simp add: handleOpenAICompatibleStream_def Let_def)

lemmas example_defs = example_upstream_def example_reads_def ascii_bytes_def example_first_def
  example_second_def example_world_def example_parse_def example_chunk_def example_part_def
  example_other_part_def example_candidates_def

lemmas decode_defs = utf8_text_def decode_def new_TextDecoder_def utf8_byte_def utf8_lead_def
  utf8_new_def utf16_def utf8_end_def replacement_def

text \<open>
  Claim C1. Let the provider answer a streaming call with success, and let the bytes of
  its body, however they are cut into reads, be the UTF-8 text of an event stream: frames
  \<open>data: <payload>\<close>, each followed by an empty line, where every payload is on one line
  and is either the \<open>[DONE]\<close> sentinel or parses to a chat completion chunk. Then
  \<open>handleOpenAICompatibleStream\<close> returns normally, the fragments it writes to the response,
  concatenated in order, are the \<open>delta.content\<close> texts of the frames other than the
  sentinel, concatenated in order, and no sentinel payload is handed to \<open>JSON.parse\<close>.
\<close>

theorem openai_stream_concatenates_deltas:
  assumes "\<not> template_throws (own_prop body (ascii ''mimeType''))"
    and "\<not> template_throws (own_prop body (ascii ''image''))"
    and "fetch w \<lparr>url = apiUrl, authorization = Some (ascii ''Bearer '' @ apiKey),
                      payload_model = Some model, payload_stream = Some True\<rparr> = Inr r"
    and "ok r" and "read_failure r = None"
    and "utf8_text (concat (reads r)) = sse_text payloads"
    and "\<forall>p \<in> set payloads. newline \<notin> set p \<and> (is_sentinel p \<or> frame_text w p \<noteq> None)"
  shows "fst (handleOpenAICompatibleStream w body apiUrl model apiKey s) = None \<and>
     concat (written (res (snd (handleOpenAICompatibleStream w body apiUrl model apiKey s)))) =
       concat (written (res s)) @
       concat (map (delta_text w) (filter (\<lambda>p. \<not> is_sentinel p) payloads)) \<and>
     (\<forall>x \<in> set (parsed (snd (handleOpenAICompatibleStream w body apiUrl model apiKey s))).
        x \<in> set (parsed s) \<or> \<not> is_sentinel x)"
proof -
  let ?s1 = "s\<lparr>fetched := fetched s @ [\<lparr>url = apiUrl, authorization = Some (ascii ''Bearer '' @ apiKey),
                      payload_model = Some model, payload_stream = Some True\<rparr>],
           res := res_setHeader (ascii ''Content-Type'') [ascii ''text/plain; charset=utf-8''] (res s)\<rparr>"
  have nl: "\<forall>p \<in> set payloads. newline \<notin> set p" using assms(7) by blast
  have wf: "\<forall>p \<in> set payloads. is_sentinel p \<or> frame_text w p \<noteq> None" using assms(7) by blast
  have run: "handleOpenAICompatibleStream w body apiUrl model apiKey s =
       (None, fold (sse_data w) payloads ?s1)"
    using handleOpenAICompatibleStream_ok [OF assms(1-4), of s] openai_loop_sse [OF assms(6) nl]
    by (simp add: assms(5))
  obtain ps where ps: "parsed (fold (sse_data w) payloads ?s1) = parsed ?s1 @ ps"
      "\<forall>x \<in> set ps. \<not> is_sentinel x"
    using fold_sse_data_parsed by blast
  show ?thesis
    using fold_sse_data_text [OF wf, of ?s1] ps
    by (auto simp add: run res_setHeader_def)
qed

theorem openai_stream_concatenates_deltas_witness:
  "fst (handleOpenAICompatibleStream example_world (JObj [(ascii ''image'', JStr (ascii ''aGk=''))])
          (ascii ''https://api.deepseek.com/chat/completions'') (ascii ''deepseek-vl-chat'')
          (ascii ''sk-1'') new_server) = None \<and>
   concat (written (res (snd (handleOpenAICompatibleStream example_world
          (JObj [(ascii ''image'', JStr (ascii ''aGk=''))])
          (ascii ''https://api.deepseek.com/chat/completions'') (ascii ''deepseek-vl-chat'')
          (ascii ''sk-1'') new_server)))) = ascii ''Caf'' @ [0xE9]"
proof -
  let ?payloads = "[example_first, example_second, ascii ''[DONE]'']"
  have h1: "\<not> template_throws (own_prop (JObj [(ascii ''image'', JStr (ascii ''aGk=''))]) (ascii ''mimeType''))"
    by (simp add: own_prop_def ascii_def)
  have h2: "\<not> template_throws (own_prop (JObj [(ascii ''image'', JStr (ascii ''aGk=''))]) (ascii ''image''))"
    by (simp add: own_prop_def ascii_def)
  have h3: "fetch example_world \<lparr>url = ascii ''https://api.deepseek.com/chat/completions'',
        authorization = Some (ascii ''Bearer '' @ ascii ''sk-1''),
        payload_model = Some (ascii ''deepseek-vl-chat''), payload_stream = Some True\<rparr> = Inr example_upstream"
    by (simp add: example_world_def)
  have h4: "ok example_upstream" and h5: "read_failure example_upstream = None"
    by (simp_all add: example_upstream_def)
  have h6: "utf8_text (concat (reads example_upstream)) = sse_text ?payloads"
    by (simp add: decode_defs example_defs sse_text_def sse_event_def ascii_def newline_def Let_def)
  have h7: "\<forall>p \<in> set ?payloads. newline \<notin> set p \<and> (is_sentinel p \<or> frame_text example_world p \<noteq> None)"
    by (simp add: example_defs is_sentinel_def trim_def js_whitespace_def frame_text_def
        chunk_text_def ascii_def newline_def)
  have texts: "concat (map (delta_text example_world) (filter (\<lambda>p. \<not> is_sentinel p) ?payloads))
      = ascii ''Caf'' @ [0xE9]"
    by (simp add: example_defs is_sentinel_def trim_def js_whitespace_def frame_text_def
        delta_text_def chunk_text_def ascii_def)
  from openai_stream_concatenates_deltas [OF h1 h2 h3 h4 h5 h6 h7, of new_server]
  show ?thesis by (simp only: texts) (simp add: new_server_def new_response_def)
qed

section \<open>The end of the stream\<close>

lemma butlast_js_split_cut:
  assumes "c \<notin> set tail"
  shows "butlast (js_split c (pre @ c # tail)) = js_split c pre"
proof -
  have "js_split c (pre @ c # tail) =
      butlast (js_split c pre) @ js_split c (last (js_split c pre) @ c # tail)"
    by (rule js_split_append)
  also have "js_split c (last (js_split c pre) @ c # tail) = last (js_split c pre) # js_split c tail"
    by (rule js_split_at_sep) (rule last_js_split_no_sep)
  also have "js_split c tail = [tail]" using assms by (rule js_split_no_sep)
  finally show ?thesis by (simp add: butlast_append)
qed

lemma lines_without_tail:
  assumes "newline \<notin> set tail" and "pre = [] \<or> last pre = newline"
  shows "butlast (js_split newline (pre @ tail)) = butlast (js_split newline pre)"
proof (cases "pre = []")
  case True
  with assms(1) show ?thesis by (simp add: js_split_no_sep)
next
  case False
  with assms(2) obtain front where pre: "pre = front @ [newline]"
    by (metis append_butlast_last_id)
  have "butlast (js_split newline (front @ newline # tail)) = js_split newline front"
    using assms(1) by (rule butlast_js_split_cut)
  moreover have "butlast (js_split newline (front @ newline # [])) = js_split newline front"
    by (rule butlast_js_split_cut) simp
  ultimately show ?thesis by (simp add: pre)
qed

text \<open>
  Claim C10. When the text decoded from the reads of a stream ends in a line with no
  newline after it, \<open>handleOpenAICompatibleStream\<close>'s loop does just what it does on the
  stream cut before that line: it processes the lines that end in a newline, and what is
  left in the buffer at the end of the stream is neither parsed nor written.
\<close>

theorem unterminated_last_line_is_dropped:
  assumes "stream_text new_TextDecoder chunks = pre @ tail"
    and "newline \<notin> set tail"
    and "pre = [] \<or> last pre = newline"
    and "stream_text new_TextDecoder shorter = pre"
  shows "openai_loop w new_TextDecoder [] chunks failure s =
           openai_loop w new_TextDecoder [] shorter failure s \<and>
         openai_loop w new_TextDecoder [] chunks failure s =
           (failure, fold (sse_line w) (butlast (js_split newline pre)) s)"
  using lines_without_tail [OF assms(2,3)]
  by (simp add: openai_loop_lines assms(1,4))

lemmas example_defs2 = example_unterminated_def example_terminated_def

theorem unterminated_last_line_is_dropped_witness:
  "openai_loop example_world new_TextDecoder [] example_unterminated None new_server =
     openai_loop example_world new_TextDecoder [] example_terminated None new_server \<and>
   written (res (snd (openai_loop example_world new_TextDecoder [] example_unterminated None new_server)))
     = [ascii ''Caf'']"
proof -
  let ?pre = "sse_text [example_first]"
  let ?tail = "ascii ''data: '' @ example_first"
  have h1: "stream_text new_TextDecoder example_unterminated = ?pre @ ?tail"
    by (simp add: decode_defs example_defs example_defs2 sse_text_def sse_event_def ascii_def
        newline_def Let_def)
  have h2: "newline \<notin> set ?tail"
    by (simp add: example_defs ascii_def newline_def)
  have h3: "?pre = [] \<or> last ?pre = newline"
    by (simp add: sse_text_def sse_event_def)
  have h4: "stream_text new_TextDecoder example_terminated = ?pre"
    by (simp add: decode_defs example_defs example_defs2 sse_text_def sse_event_def ascii_def
        newline_def Let_def)
  have lines: "butlast (js_split newline ?pre) = [ascii ''data: '' @ example_first, []]"
    by (simp add: example_defs sse_text_def sse_event_def ascii_def newline_def)
  have run: "sse_line example_world [] (sse_line example_world (ascii ''data: '' @ example_first) new_server) =
      new_server\<lparr>res := res_write (ascii ''Caf'') new_response, parsed := [example_first]\<rparr>"
    by (simp add: sse_line_def starts_with_def sse_data_def JSON_parse_def delta_content_def
        write_if_truthy_def get_prop_def get_index0_def opt_prop_def own_prop_def own_index0_def
        example_defs trim_def js_whitespace_def ascii_def new_server_def)
  note dropped = unterminated_last_line_is_dropped [OF h1 h2 h3 h4, of example_world None new_server]
  have "written (res (snd (openai_loop example_world new_TextDecoder [] example_unterminated None
          new_server))) = [ascii ''Caf'']"
    by (subst dropped [THEN conjunct2]) (simp add: lines run res_write_def new_response_def)
  with dropped [THEN conjunct1] show ?thesis by (rule conjI)
qed

section \<open>Frames that do not parse\<close>

lemma decode_whole:
  "\<not> do_not_flush td \<Longrightarrow>
     snd (decode td val False) = utf8_text val \<and> \<not> do_not_flush (fst (decode td val False))"
  by (simp add: decode_def utf8_text_def new_TextDecoder_def split_beta Let_def)

lemma gemini_loop_fold:
  "\<not> do_not_flush td \<Longrightarrow>
     gemini_loop w td vals failure s = (failure, fold (\<lambda>val. gemini_chunk w (utf8_text val)) vals s)"
proof (induction vals arbitrary: td s)
  case Nil
  then show ?case by simp
next
  case (Cons val rest)
  from decode_whole [OF Cons.prems, of val] Cons.IH [of "fst (decode td val False)"]
  show ?case by (simp add: split_beta Let_def)
qed

lemma candidate_text_chunk:
  "gemini_chunk_text json = Some t \<Longrightarrow>
     candidate_text json = Inr (JStr t) \<or>
     (t = [] \<and> (\<exists>v. candidate_text json = Inr v \<and> \<not> truthy v))"
  by (auto simp add: gemini_chunk_text_def candidate_text_def get_index0_def opt_prop_def
      opt_index0_def own_prop_def own_index0_def split: js.splits option.splits list.splits)

lemma gemini_chunk_written:
  assumes "read_text w val \<noteq> None \<or> (\<exists>e. json_parse w (strip_data_prefix (utf8_text val)) = Inl e)"
  shows "written (res (gemini_chunk w (utf8_text val) s)) =
           written (res s) @ (if part_text w val = [] then [] else [part_text w val])"
proof (cases "json_parse w (strip_data_prefix (utf8_text val))")
  case (Inl e)
  then show ?thesis
    by (simp add: gemini_chunk_def JSON_parse_def console_error_def part_text_def read_text_def)
next
  case (Inr json)
  with assms obtain t where t: "gemini_chunk_text json = Some t"
    by (auto simp add: read_text_def)
  from candidate_text_chunk [OF t] Inr t show ?thesis
    by (auto simp add: gemini_chunk_def JSON_parse_def write_if_truthy_def res_write_def
        part_text_def read_text_def)
qed

lemma fold_gemini_written:
  assumes "\<forall>val \<in> set vals.
      read_text w val \<noteq> None \<or> (\<exists>e. json_parse w (strip_data_prefix (utf8_text val)) = Inl e)"
  shows "written (res (fold (\<lambda>val. gemini_chunk w (utf8_text val)) vals s)) =
           written (res s) @ read_fragments w vals"
  using assms
proof (induction vals arbitrary: s)
  case Nil
  then show ?case by (simp add: read_fragments_def)
next
  case (Cons val vals)
  then have step: "read_text w val \<noteq> None \<or>
      (\<exists>e. json_parse w (strip_data_prefix (utf8_text val)) = Inl e)" by simp
  from Cons have "written (res (fold (\<lambda>val. gemini_chunk w (utf8_text val)) vals
        (gemini_chunk w (utf8_text val) s))) =
      written (res (gemini_chunk w (utf8_text val) s)) @ read_fragments w vals"
    by simp
  with gemini_chunk_written [OF step, of s] show ?case
    by (simp add: read_fragments_def)
qed

lemma sse_data_written:
  assumes "is_sentinel p \<or> frame_text w p \<noteq> None \<or> (\<exists>e. json_parse w p = Inl e)"
  shows "written (res (sse_data w p s)) =
           written (res s) @ (if is_sentinel p \<or> delta_text w p = [] then [] else [delta_text w p])"
proof (cases "is_sentinel p")
  case True
  then show ?thesis by (simp add: sse_data_sentinel)
next
  case False
  show ?thesis
  proof (cases "json_parse w p")
    case (Inl e)
    with False show ?thesis
      by (simp add: sse_data_malformed delta_text_def frame_text_def)
  next
    case (Inr json)
    with assms False obtain c where c: "frame_text w p = Some c"
      by auto
    from sse_data_frame(1) [OF False c, of s] False c show ?thesis
      by (simp add: delta_text_def res_write_def)
  qed
qed

lemma fold_sse_data_written:
  assumes "\<forall>p \<in> set ps. is_sentinel p \<or> frame_text w p \<noteq> None \<or> (\<exists>e. json_parse w p = Inl e)"
  shows "written (res (fold (sse_data w) ps s)) = written (res s) @ fragments w ps"
  using assms
proof (induction ps arbitrary: s)
  case Nil
  then show ?case by (simp add: fragments_def)
next
  case (Cons p ps)
  then have step: "is_sentinel p \<or> frame_text w p \<noteq> None \<or> (\<exists>e. json_parse w p = Inl e)"
    by simp
  from Cons have "written (res (fold (sse_data w) ps (sse_data w p s))) =
      written (res (sse_data w p s)) @ fragments w ps"
    by simp
  with sse_data_written [OF step, of s] show ?case
    by (simp add: fragments_def)
qed

lemma fragments_skip_malformed:
  "json_parse w bad = Inl e \<Longrightarrow> fragments w (before @ bad # after) = fragments w (before @ after)"
  by (simp add: fragments_def delta_text_def frame_text_def)

lemma read_fragments_skip_malformed:
  "json_parse w (strip_data_prefix (utf8_text vbad)) = Inl e \<Longrightarrow>
     read_fragments w (vbefore @ vbad # vafter) = read_fragments w (vbefore @ vafter)"
  by (simp add: read_fragments_def part_text_def read_text_def)

text \<open>
  Claim C3, as amended. Among well-formed frames (the sentinel and frames with an empty
  or absent text included), one frame that does not parse is passed over: the stream is
  processed to its end, and what is written is exactly the fragments of the well-formed
  frames that carry a text that is not empty, in order and one write each. For
  \<open>handleOpenAICompatibleStream\<close> a frame is an event of the stream, for
  \<open>handleGeminiStream\<close> it is one read.
\<close>

theorem malformed_frame_is_skipped:
  assumes "utf8_text (concat chunks) = sse_text (before @ bad # after)"
    and "\<forall>p \<in> set (before @ after).
           newline \<notin> set p \<and> (is_sentinel p \<or> frame_text w p \<noteq> None)"
    and "newline \<notin> set bad" and "json_parse w bad = Inl e"
    and "\<forall>val \<in> set (vbefore @ vafter). read_text w val \<noteq> None"
    and "json_parse w (strip_data_prefix (utf8_text vbad)) = Inl e'"
  shows "fst (openai_loop w new_TextDecoder [] chunks None s) = None \<and>
     written (res (snd (openai_loop w new_TextDecoder [] chunks None s))) =
       written (res s) @ fragments w (before @ after) \<and>
     length (written (res (snd (openai_loop w new_TextDecoder [] chunks None s)))) =
       length (written (res s)) + length (fragments w (before @ after)) \<and>
     fst (gemini_loop w new_TextDecoder (vbefore @ vbad # vafter) None s) = None \<and>
     written (res (snd (gemini_loop w new_TextDecoder (vbefore @ vbad # vafter) None s))) =
       written (res s) @ read_fragments w (vbefore @ vafter) \<and>
     length (written (res (snd (gemini_loop w new_TextDecoder (vbefore @ vbad # vafter) None s)))) =
       length (written (res s)) + length (read_fragments w (vbefore @ vafter))"
proof -
  have nl: "\<forall>p \<in> set (before @ bad # after). newline \<notin> set p"
    using assms(2,3) by auto
  have frames: "\<forall>p \<in> set (before @ bad # after).
      is_sentinel p \<or> frame_text w p \<noteq> None \<or> (\<exists>e. json_parse w p = Inl e)"
    using assms(2,4) by auto
  have openai: "openai_loop w new_TextDecoder [] chunks None s =
      (None, fold (sse_data w) (before @ bad # after) s)"
    by (rule openai_loop_sse [OF assms(1) nl])
  have w1: "written (res (snd (openai_loop w new_TextDecoder [] chunks None s))) =
       written (res s) @ fragments w (before @ after)"
    by (simp only: openai snd_conv fold_sse_data_written [OF frames]
        fragments_skip_malformed [OF assms(4)])
  have vals: "\<forall>val \<in> set (vbefore @ vbad # vafter).
      read_text w val \<noteq> None \<or> (\<exists>e. json_parse w (strip_data_prefix (utf8_text val)) = Inl e)"
    using assms(5,6) by auto
  have nf: "\<not> do_not_flush new_TextDecoder" by (simp add: new_TextDecoder_def)
  have gemini: "gemini_loop w new_TextDecoder (vbefore @ vbad # vafter) None s =
      (None, fold (\<lambda>val. gemini_chunk w (utf8_text val)) (vbefore @ vbad # vafter) s)"
    by (rule gemini_loop_fold [OF nf])
  have w2: "written (res (snd (gemini_loop w new_TextDecoder (vbefore @ vbad # vafter) None s))) =
       written (res s) @ read_fragments w (vbefore @ vafter)"
    by (simp only: gemini snd_conv fold_gemini_written [OF vals]
        read_fragments_skip_malformed [OF assms(6)])
  have "fst (openai_loop w new_TextDecoder [] chunks None s) = None"
    and "fst (gemini_loop w new_TextDecoder (vbefore @ vbad # vafter) None s) = None"
    by (simp_all only: openai gemini fst_conv)
  with w1 w2 show ?thesis by simp
qed

lemmas example_defs3 = example_broken_def example_read_def example_broken_read_def
  example_other_read_def

lemmas example_defs4 = example_role_def example_role_world_def example_empty_part_def
  example_mixed_def example_role_then_broken_def example_empty_read_def

theorem malformed_frame_is_skipped_witness:
  "written (res (snd (openai_loop example_role_world new_TextDecoder [] example_mixed None new_server)))
     = [ascii ''Caf'', [0xE9]] \<and>
   written (res (snd (gemini_loop example_role_world new_TextDecoder
       ([example_read, example_empty_read] @ example_broken_read # [example_other_read])
       None new_server)))
     = [ascii ''Hel'', ascii ''lo'']"
proof -
  let ?before = "[example_role, example_first]"
  let ?after = "[example_second, ascii ''[DONE]'']"
  have h1: "utf8_text (concat example_mixed) = sse_text (?before @ example_broken # ?after)"
    by (simp add: decode_defs example_defs example_defs3 example_defs4 sse_text_def sse_event_def
        ascii_def newline_def Let_def)
  have h2: "\<forall>p \<in> set (?before @ ?after).
      newline \<notin> set p \<and> (is_sentinel p \<or> frame_text example_role_world p \<noteq> None)"
    by (simp add: example_defs example_defs4 is_sentinel_def trim_def js_whitespace_def
        frame_text_def chunk_text_def ascii_def newline_def)
  have h3: "newline \<notin> set example_broken"
    by (simp add: example_defs3 ascii_def newline_def)
  have h4: "json_parse example_role_world example_broken = Inl (Native SyntaxError)"
    by (simp add: example_defs example_defs3 example_defs4 ascii_def)
  have h5: "\<forall>val \<in> set ([example_read, example_empty_read] @ [example_other_read]).
      read_text example_role_world val \<noteq> None"
    by (simp add: decode_defs example_defs example_defs3 example_defs4 read_text_def
        gemini_chunk_text_def strip_data_prefix_def starts_with_def ascii_def Let_def)
  have h6: "json_parse example_role_world (strip_data_prefix (utf8_text example_broken_read)) =
      Inl (Native SyntaxError)"
    by (simp add: decode_defs example_defs example_defs3 example_defs4 strip_data_prefix_def
        starts_with_def ascii_def Let_def)
  have t1: "fragments example_role_world (?before @ ?after) = [ascii ''Caf'', [0xE9]]"
    by (simp add: example_defs example_defs4 fragments_def is_sentinel_def trim_def
        js_whitespace_def frame_text_def delta_text_def chunk_text_def ascii_def)
  have t2: "read_fragments example_role_world ([example_read, example_empty_read] @ [example_other_read]) =
      [ascii ''Hel'', ascii ''lo'']"
    by (simp add: decode_defs example_defs example_defs3 example_defs4 read_fragments_def
        read_text_def part_text_def gemini_chunk_text_def strip_data_prefix_def starts_with_def
        ascii_def Let_def)
  from malformed_frame_is_skipped [OF h1 h2 h3 h4 h5 h6, of new_server]
  show ?thesis by (simp only: t1 t2) (simp add: new_server_def new_response_def)
qed

text \<open>
  The claim as first stated fails: a frame that carries the role and no content is
  well-formed, and a stream of that frame and one frame that does not parse is
  processed to its end with nothing written.
\<close>

theorem role_frame_and_malformed_frame_write_nothing:
  "utf8_text (concat example_role_then_broken) = sse_text [example_role, example_broken] \<and>
   \<not> is_sentinel example_role \<and>
   frame_text example_role_world example_role = Some [] \<and>
   json_parse example_role_world example_broken = Inl (Native SyntaxError) \<and>
   fst (openai_loop example_role_world new_TextDecoder [] example_role_then_broken None new_server)
     = None \<and>
   written (res (snd (openai_loop example_role_world new_TextDecoder [] example_role_then_broken
                        None new_server))) = []"
proof -
  have h1: "utf8_text (concat example_role_then_broken) = sse_text [example_role, example_broken]"
    by (simp add: decode_defs example_defs example_defs3 example_defs4 sse_text_def sse_event_def
        ascii_def newline_def Let_def)
  have nl: "\<forall>p \<in> set [example_role, example_broken]. newline \<notin> set p"
    by (simp add: example_defs3 example_defs4 ascii_def newline_def)
  have role: "\<not> is_sentinel example_role \<and> frame_text example_role_world example_role = Some []"
    by (simp add: example_defs example_defs4 is_sentinel_def trim_def js_whitespace_def
        frame_text_def chunk_text_def ascii_def)
  have broken: "json_parse example_role_world example_broken = Inl (Native SyntaxError)"
    by (simp add: example_defs example_defs3 example_defs4 ascii_def)
  have frames: "\<forall>p \<in> set [example_role, example_broken].
      is_sentinel p \<or> frame_text example_role_world p \<noteq> None
        \<or> (\<exists>e. json_parse example_role_world p = Inl e)"
    using role broken by simp
  have none: "fragments example_role_world [example_role, example_broken] = []"
    using role broken by (simp add: fragments_def delta_text_def frame_text_def)
  have run: "openai_loop example_role_world new_TextDecoder [] example_role_then_broken None new_server =
     (None, fold (sse_data example_role_world) [example_role, example_broken] new_server)"
    by (rule openai_loop_sse [OF h1 nl])
  have "written (res (snd (openai_loop example_role_world new_TextDecoder []
          example_role_then_broken None new_server))) = []"
    by (simp only: run snd_conv fold_sse_data_written [OF frames] none)
      (simp add: new_server_def new_response_def)
  moreover have "fst (openai_loop example_role_world new_TextDecoder []
          example_role_then_broken None new_server) = None"
    by (simp only: run fst_conv)
  ultimately show ?thesis using h1 role broken by blast
qed

section \<open>A character split across two reads\<close>

text \<open>
  Claim C2, at a concrete input. The two bytes of one character (U+00E9) arrive in two
  reads. The loops that call \<open>decoder.decode(value)\<close> without \<open>stream: true\<close>, the client's
  \<open>extractTextFromImageStream\<close> and \<open>handleGeminiStream\<close>, turn each half into U+FFFD, so
  the text they yield or parse is not the text of the whole input. The loop of
  \<open>handleOpenAICompatibleStream\<close>, which passes \<open>stream: true\<close>, decodes the character.
\<close>

theorem split_character_is_replaced:
  "utf8_text (concat [[0x48, 0xC3], [0xA9]]) = [0x48, 0xE9] \<and>
   concat (extract_loop new_TextDecoder [[0x48, 0xC3], [0xA9]]) = [0x48, 0xFFFD, 0xFFFD] \<and>
   parsed (snd (gemini_loop example_world new_TextDecoder [[0x48, 0xC3], [0xA9]] None new_server))
     = [[0x48, 0xFFFD], [0xFFFD]] \<and>
   stream_text new_TextDecoder [[0x48, 0xC3], [0xA9]] = [0x48, 0xE9]"
  by (simp add: decode_defs example_defs Let_def gemini_chunk_def JSON_parse_def
      strip_data_prefix_def starts_with_def ascii_def console_error_def new_server_def)

section \<open>The handler: modes, providers and credentials\<close>

lemma route_by_mode:
  "\<not> nullish body \<Longrightarrow>
   route w body s =
     (case request_mode body of
        TextTask \<Rightarrow> text_route w body s
      | Ocr \<Rightarrow> ocr_route w body s
      | Invalid \<Rightarrow>
          (None, s\<lparr>res := res_send (JObj [(ascii ''error'', JStr (ascii ''Invalid request body.''))])
                              (res_status 400 (res s))\<rparr>))"
  by (simp add: route_def request_mode_def get_prop_def)

lemma invalid_response:
  "res_send (JObj [(ascii ''error'', JStr m)]) (res_status code new_response) = error_response code m"
  by (simp add: res_send_def res_status_def new_response_def error_response_def)

text \<open>
  Claim C5, as amended. For a \<open>POST\<close> whose body is neither \<open>null\<close> nor \<open>undefined\<close>, the
  handler takes the text route exactly when \<open>task\<close> and \<open>text\<close> are both truthy, the OCR
  route exactly when it does not take the text route and \<open>image\<close> is truthy, and answers
  every other body with status 400 and a JSON error body, with no call to a provider.
\<close>

theorem handler_routes_by_truthiness:
  assumes "req_method req = Some (ascii ''POST'')" and "\<not> nullish (req_body req)"
  shows "(request_mode (req_body req) = TextTask \<longleftrightarrow>
            truthy (own_prop (req_body req) (ascii ''task''))
              \<and> truthy (own_prop (req_body req) (ascii ''text''))) \<and>
         (request_mode (req_body req) = Ocr \<longleftrightarrow>
            \<not> (truthy (own_prop (req_body req) (ascii ''task''))
                 \<and> truthy (own_prop (req_body req) (ascii ''text'')))
              \<and> truthy (own_prop (req_body req) (ascii ''image''))) \<and>
         handler w req =
           (case request_mode (req_body req) of
              TextTask \<Rightarrow> settle w (text_route w (req_body req) new_server)
            | Ocr \<Rightarrow> settle w (ocr_route w (req_body req) new_server)
            | Invalid \<Rightarrow> new_server\<lparr>res := error_response 400 (ascii ''Invalid request body.'')\<rparr>) \<and>
         (request_mode (req_body req) = Invalid \<longrightarrow>
            statusCode (res (handler w req)) = 400 \<and> fetched (handler w req) = [])"
proof -
  have modes: "(request_mode (req_body req) = TextTask \<longleftrightarrow>
            truthy (own_prop (req_body req) (ascii ''task''))
              \<and> truthy (own_prop (req_body req) (ascii ''text''))) \<and>
         (request_mode (req_body req) = Ocr \<longleftrightarrow>
            \<not> (truthy (own_prop (req_body req) (ascii ''task''))
                 \<and> truthy (own_prop (req_body req) (ascii ''text'')))
              \<and> truthy (own_prop (req_body req) (ascii ''image'')))"
    by (simp add: request_mode_def)
  have run: "handler w req =
           (case request_mode (req_body req) of
              TextTask \<Rightarrow> settle w (text_route w (req_body req) new_server)
            | Ocr \<Rightarrow> settle w (ocr_route w (req_body req) new_server)
            | Invalid \<Rightarrow> new_server\<lparr>res := error_response 400 (ascii ''Invalid request body.'')\<rparr>)"
    using assms
    by (simp add: handler_def route_by_mode invalid_response [symmetric] new_server_def
        split: mode.splits)
  have "request_mode (req_body req) = Invalid \<longrightarrow>
            statusCode (res (handler w req)) = 400 \<and> fetched (handler w req) = []"
    by (simp add: run error_response_def new_server_def)
  with modes run show ?thesis by blast
qed

theorem handler_routes_by_truthiness_witness:
  "req_method (post (JObj [])) = Some (ascii ''POST'') \<and> \<not> nullish (req_body (post (JObj []))) \<and>
   request_mode (JObj []) = Invalid \<and>
   statusCode (res (handler example_world (post (JObj [])))) = 400 \<and>
   fetched (handler example_world (post (JObj []))) = []"
proof -
  have h1: "req_method (post (JObj [])) = Some (ascii ''POST'')"
    and h2: "\<not> nullish (req_body (post (JObj [])))"
    and h3: "request_mode (JObj []) = Invalid"
    by (simp_all add: post_def request_mode_def own_prop_def)
  from handler_routes_by_truthiness [OF h1 h2, of example_world] h1 h2 h3
  show ?thesis by (simp add: post_def error_response_def new_server_def)
qed

text \<open>
  The claim as first stated, with presence in place of truthiness, fails: a body with a
  \<open>task\<close> and an empty \<open>text\<close> has both fields and is answered with status 400.
\<close>

theorem present_but_empty_text_is_rejected:
  "has_field example_empty_text (ascii ''task'') \<and>
   has_field example_empty_text (ascii ''text'') \<and>
   request_mode example_empty_text = Invalid \<and>
   handler example_world (post example_empty_text) =
     new_server\<lparr>res := error_response 400 (ascii ''Invalid request body.'')\<rparr>"
  by (simp add: example_empty_text_def has_field_def request_mode_def own_prop_def post_def
     handler_def route_def get_prop_def invalid_response [symmetric] new_server_def ascii_def)

lemma catch_before_headers:
  "catch_block w (Error m) (new_server\<lparr>fetched := calls\<rparr>) =
     new_server\<lparr>fetched := calls, console := [FunctionError (Error m)],
       res := error_response 500 (ascii ''Error processing your request: '' @ m)\<rparr>"
  by (simp add: catch_block_def console_error_def new_server_def new_response_def errorMessage_def
      res_send_def res_status_def error_response_def Let_def)

lemma new_server_fetched: "new_server\<lparr>fetched := []\<rparr> = new_server"
  by (simp add: new_server_def)

lemma switches_without_key:
  assumes "provider_key (env w) (provider_of (own_prop body (ascii ''llm''))) = None"
  shows "text_switch w body s =
           (Inl (Error (key_name (provider_of (own_prop body (ascii ''llm'')))
                          @ ascii '' is not configured.'')), s)"
    and "ocr_switch w body s =
           (Some (Error (key_name (provider_of (own_prop body (ascii ''llm'')))
                          @ ascii '' is not configured.'')), s)"
  using assms
  by (simp_all add: text_switch_def ocr_switch_def provider_of_def credential_def Let_def
      split: if_splits)


text \<open>
  Claim C7. For a \<open>POST\<close> that takes the text route or the OCR route, when the environment
  has no credential for the provider the request selects, the handler answers with status
  500 and the message that the provider's key (named) is not configured, and has made
  no call to the transport.
\<close>

theorem missing_credential_fails_before_any_call:
  assumes "req_method req = Some (ascii ''POST'')" and "\<not> nullish (req_body req)"
    and "request_mode (req_body req) \<noteq> Invalid"
    and "provider_key (env w) (provider_of (own_prop (req_body req) (ascii ''llm''))) = None"
  shows "handler w req =
     new_server\<lparr>console := [FunctionError (Error
         (key_name (provider_of (own_prop (req_body req) (ascii ''llm'')))
            @ ascii '' is not configured.''))],
       res := error_response 500 (ascii ''Error processing your request: ''
         @ key_name (provider_of (own_prop (req_body req) (ascii ''llm'')))
         @ ascii '' is not configured.'')\<rparr> \<and>
     fetched (handler w req) = []"
proof -
  let ?m = "key_name (provider_of (own_prop (req_body req) (ascii ''llm''))) @ ascii '' is not configured.''"
  have "route w (req_body req) new_server = (Some (Error ?m), new_server)"
    using assms(3) switches_without_key [OF assms(4), of new_server]
    by (simp add: route_by_mode [OF assms(2)] text_route_def ocr_route_def split: mode.splits)
  then have "handler w req = catch_block w (Error ?m) (new_server\<lparr>fetched := []\<rparr>)"
    using assms(1) by (simp add: handler_def new_server_fetched)
  then have run: "handler w req =
     new_server\<lparr>console := [FunctionError (Error ?m)],
       res := error_response 500 (ascii ''Error processing your request: '' @ ?m)\<rparr>"
    by (simp only: catch_before_headers) (simp add: new_server_def)
  then show ?thesis by (simp add: new_server_def)
qed

lemma switch_with_key:
  assumes "provider_key (env w) (provider_of (own_prop body (ascii ''llm''))) = Some k" and "k \<noteq> []"
  shows "ocr_switch w body s =
      (case provider_of (own_prop body (ascii ''llm'')) of
         Deepseek \<Rightarrow> handleOpenAICompatibleStream w body
               (ascii ''https://api.deepseek.com/chat/completions'') (ascii ''deepseek-vl-chat'') k s
       | Openai \<Rightarrow> handleOpenAICompatibleStream w body
               (ascii ''https://api.openai.com/v1/chat/completions'') (ascii ''gpt-4o'') k s
       | Gemini \<Rightarrow> handleGeminiStream w body k s)"
  using assms
  by (simp add: ocr_switch_def provider_of_def credential_def Let_def split: if_splits)

lemma ocr_switch_upstream_error:
  assumes "provider_key (env w) (provider_of (own_prop body (ascii ''llm''))) = Some k" and "k \<noteq> []"
    and "\<not> ocr_payload_throws (provider_of (own_prop body (ascii ''llm''))) body"
    and "fetch w (ocr_call (provider_of (own_prop body (ascii ''llm''))) k) = Inr r"
    and "\<not> ok r" and "text_body r = Inr t"
  shows "ocr_switch w body s =
      (Some (Error (api_error_prefix (provider_of (own_prop body (ascii ''llm'')))
                @ decimal (status r) @ ascii '' '' @ t)),
       s\<lparr>fetched := fetched s @ [ocr_call (provider_of (own_prop body (ascii ''llm''))) k]\<rparr>)"
proof (cases "provider_of (own_prop body (ascii ''llm''))")
  case Deepseek
  with assms show ?thesis
    by (simp add: switch_with_key [OF assms(1,2)] handleOpenAICompatibleStream_def Let_def)
next
  case Openai
  with assms show ?thesis
    by (simp add: switch_with_key [OF assms(1,2)] handleOpenAICompatibleStream_def Let_def)
next
  case Gemini
  with assms show ?thesis
    by (simp add: switch_with_key [OF assms(1,2)] handleGeminiStream_def Let_def)
qed

text \<open>
  Claim C8. For an OCR request whose provider answers the call with a status that is not
  a success, the handler fails with the error that carries the status and the text of
  the provider's answer: status 500 with that message to the caller, after exactly one
  call to the transport, and with no fragment written.
\<close>

theorem upstream_error_is_propagated:
  assumes "req_method req = Some (ascii ''POST'')" and "\<not> nullish (req_body req)"
    and "request_mode (req_body req) = Ocr"
    and "provider_key (env w) (provider_of (own_prop (req_body req) (ascii ''llm''))) = Some k"
    and "k \<noteq> []"
    and "\<not> ocr_payload_throws (provider_of (own_prop (req_body req) (ascii ''llm''))) (req_body req)"
    and "fetch w (ocr_call (provider_of (own_prop (req_body req) (ascii ''llm''))) k) = Inr r"
    and "\<not> ok r" and "text_body r = Inr t"
  shows "handler w req =
     new_server\<lparr>fetched := [ocr_call (provider_of (own_prop (req_body req) (ascii ''llm''))) k],
       console := [FunctionError (Error
         (api_error_prefix (provider_of (own_prop (req_body req) (ascii ''llm'')))
            @ decimal (status r) @ ascii '' '' @ t))],
       res := error_response 500 (ascii ''Error processing your request: ''
         @ api_error_prefix (provider_of (own_prop (req_body req) (ascii ''llm'')))
         @ decimal (status r) @ ascii '' '' @ t)\<rparr> \<and>
     written (res (handler w req)) = [] \<and>
     length (fetched (handler w req)) = 1"
proof -
  let ?p = "provider_of (own_prop (req_body req) (ascii ''llm''))"
  let ?m = "api_error_prefix ?p @ decimal (status r) @ ascii '' '' @ t"
  have "route w (req_body req) new_server = (Some (Error ?m), new_server\<lparr>fetched := [ocr_call ?p k]\<rparr>)"
    using assms(3) ocr_switch_upstream_error [OF assms(4-9), of new_server]
    by (simp add: route_by_mode [OF assms(2)] ocr_route_def new_server_def)
  then have "handler w req = catch_block w (Error ?m) (new_server\<lparr>fetched := [ocr_call ?p k]\<rparr>)"
    using assms(1) by (simp add: handler_def)
  then have run: "handler w req =
     new_server\<lparr>fetched := [ocr_call ?p k], console := [FunctionError (Error ?m)],
       res := error_response 500 (ascii ''Error processing your request: '' @ ?m)\<rparr>"
    by (simp only: catch_before_headers)
  then show ?thesis by (simp add: error_response_def)
qed


theorem missing_credential_fails_before_any_call_witness:
  "provider_key (env example_world) (provider_of (own_prop (example_image (ascii ''openai'')) (ascii ''llm''))) = None \<and>
   statusCode (res (handler example_world (post (example_image (ascii ''openai''))))) = 500 \<and>
   sent (res (handler example_world (post (example_image (ascii ''openai''))))) =
     Some (JObj [(ascii ''error'',
       JStr (ascii ''Error processing your request: OPENAI_API_KEY is not configured.''))]) \<and>
   fetched (handler example_world (post (example_image (ascii ''openai'')))) = []"
proof -
  let ?req = "post (example_image (ascii ''openai''))"
  have p: "provider_of (own_prop (req_body ?req) (ascii ''llm'')) = Openai"
    by (simp add: post_def example_image_def own_prop_def provider_of_def ascii_def)
  have h1: "req_method ?req = Some (ascii ''POST'')" and h2: "\<not> nullish (req_body ?req)"
    and h3: "request_mode (req_body ?req) \<noteq> Invalid"
    by (simp_all add: post_def example_image_def request_mode_def own_prop_def ascii_def)
  have h4: "provider_key (env example_world) (provider_of (own_prop (req_body ?req) (ascii ''llm''))) = None"
    by (simp add: p example_world_def)
  have k: "provider_key (env example_world)
      (provider_of (own_prop (example_image (ascii ''openai'')) (ascii ''llm''))) = None"
    using h4 by (simp add: post_def)
  from missing_credential_fails_before_any_call [OF h1 h2 h3 h4]
  have "statusCode (res (handler example_world ?req)) = 500 \<and>
     sent (res (handler example_world ?req)) =
       Some (JObj [(ascii ''error'',
         JStr (ascii ''Error processing your request: OPENAI_API_KEY is not configured.''))]) \<and>
     fetched (handler example_world ?req) = []"
    by (simp add: p) (simp add: error_response_def new_server_def ascii_def)
  with k show ?thesis by blast
qed

lemma decimal_401: "decimal 401 = ascii ''401''"
  by (simp add: decimal.simps [of 401] decimal.simps [of 40] decimal.simps [of 4] ascii_def)

theorem upstream_error_is_propagated_witness:
  "\<not> ok example_denied \<and> status example_denied = 401 \<and>
   statusCode (res (handler (example_world_with example_denied) (post (example_image (ascii ''deepseek''))))) = 500 \<and>
   sent (res (handler (example_world_with example_denied) (post (example_image (ascii ''deepseek''))))) =
     Some (JObj [(ascii ''error'',
       JStr (ascii ''Error processing your request: API error: 401 denied''))]) \<and>
   written (res (handler (example_world_with example_denied) (post (example_image (ascii ''deepseek''))))) = [] \<and>
   length (fetched (handler (example_world_with example_denied) (post (example_image (ascii ''deepseek''))))) = 1"
proof -
  let ?req = "post (example_image (ascii ''deepseek''))"
  let ?w = "example_world_with example_denied"
  have p: "provider_of (own_prop (req_body ?req) (ascii ''llm'')) = Deepseek"
    by (simp add: post_def example_image_def own_prop_def provider_of_def ascii_def)
  have h1: "req_method ?req = Some (ascii ''POST'')" and h2: "\<not> nullish (req_body ?req)"
    and h3: "request_mode (req_body ?req) = Ocr"
    by (simp_all add: post_def example_image_def request_mode_def own_prop_def ascii_def)
  have h4: "provider_key (env ?w) (provider_of (own_prop (req_body ?req) (ascii ''llm''))) = Some (ascii ''sk-1'')"
    by (simp add: p example_world_with_def example_world_def)
  have h5: "ascii ''sk-1'' \<noteq> []" by (simp add: ascii_def)
  have h6: "\<not> ocr_payload_throws (provider_of (own_prop (req_body ?req) (ascii ''llm''))) (req_body ?req)"
    by (simp add: p) (simp add: post_def example_image_def own_prop_def ascii_def)
  have h7: "fetch ?w (ocr_call (provider_of (own_prop (req_body ?req) (ascii ''llm''))) (ascii ''sk-1''))
      = Inr example_denied"
    by (simp add: example_world_with_def)
  have h8: "\<not> ok example_denied" and h9: "text_body example_denied = Inr (ascii ''denied'')"
    and st: "status example_denied = 401"
    by (simp_all add: example_denied_def)
  from upstream_error_is_propagated [OF h1 h2 h3 h4 h5 h6 h7 h8 h9] h8 st
  show ?thesis
    by (simp add: p decimal_401) (simp add: error_response_def ascii_def)
qed

section \<open>A stream that breaks off\<close>

lemma sse_line_without_read_failure: "sse_line (without_read_failure w) = sse_line w"
  by (rule ext, rule ext) (simp add: sse_line_def sse_data_def JSON_parse_def without_read_failure_def)

lemma gemini_chunk_without_read_failure: "gemini_chunk (without_read_failure w) = gemini_chunk w"
  by (rule ext, rule ext) (simp add: gemini_chunk_def JSON_parse_def without_read_failure_def)

lemma fetch_without_read_failure:
  "fetch (without_read_failure w) call =
     (case fetch w call of Inl e \<Rightarrow> Inl e | Inr r \<Rightarrow> Inr (r\<lparr>read_failure := None\<rparr>))"
  by (simp add: without_read_failure_def)

lemma sse_line_sent:
  "written (res s) \<noteq> [] \<longrightarrow> headersSent (res s) \<Longrightarrow>
   written (res (sse_line w l s)) \<noteq> [] \<longrightarrow> headersSent (res (sse_line w l s))"
  by (auto simp add: sse_line_def sse_data_def JSON_parse_def console_error_def
      write_if_truthy_def res_write_def split: sum.splits js.splits if_splits)

lemma gemini_chunk_sent:
  "written (res s) \<noteq> [] \<longrightarrow> headersSent (res s) \<Longrightarrow>
   written (res (gemini_chunk w c s)) \<noteq> [] \<longrightarrow> headersSent (res (gemini_chunk w c s))"
  by (auto simp add: gemini_chunk_def JSON_parse_def console_error_def
      write_if_truthy_def res_write_def split: sum.splits js.splits if_splits)

lemma fold_sent:
  assumes step: "\<And>x s. written (res s) \<noteq> [] \<longrightarrow> headersSent (res s) \<Longrightarrow>
      written (res (f x s)) \<noteq> [] \<longrightarrow> headersSent (res (f x s))"
  shows "written (res s) \<noteq> [] \<longrightarrow> headersSent (res s) \<Longrightarrow>
     written (res (fold f xs s)) \<noteq> [] \<longrightarrow> headersSent (res (fold f xs s))"
proof (induction xs arbitrary: s)
  case Nil
  then show ?case by simp
next
  case (Cons x xs)
  from Cons.IH [OF step [OF Cons.prems]] show ?case by simp
qed

lemma openai_same_but_failure:
  assumes "written (res s) = []"
  shows "same_but_failure (handleOpenAICompatibleStream w body apiUrl model apiKey s)
     (handleOpenAICompatibleStream (without_read_failure w) body apiUrl model apiKey s) s"
proof -
  let ?call = "\<lparr>url = apiUrl, authorization = Some (ascii ''Bearer '' @ apiKey),
                 payload_model = Some model, payload_stream = Some True\<rparr>"
  let ?s1 = "s\<lparr>fetched := fetched s @ [?call]\<rparr>"
  let ?s2 = "?s1\<lparr>res := res_setHeader (ascii ''Content-Type'')
                                  [ascii ''text/plain; charset=utf-8''] (res ?s1)\<rparr>"
  have inv: "written (res ?s2) \<noteq> [] \<longrightarrow> headersSent (res ?s2)"
    using assms by (simp add: res_setHeader_def)
  have sent: "\<And>ls. written (res (fold (sse_line w) ls ?s2)) \<noteq> [] \<longrightarrow>
      headersSent (res (fold (sse_line w) ls ?s2))"
    by (rule fold_sent [OF sse_line_sent inv])
  show ?thesis
    using sent
    by (auto simp add: same_but_failure_def handleOpenAICompatibleStream_def Let_def
        openai_loop_lines sse_line_without_read_failure fetch_without_read_failure
        split: sum.splits)
qed

lemma gemini_same_but_failure:
  assumes "written (res s) = []"
  shows "same_but_failure (handleGeminiStream w body apiKey s)
     (handleGeminiStream (without_read_failure w) body apiKey s) s"
proof -
  let ?call = "\<lparr>url = gemini_stream_url apiKey, authorization = None,
                   payload_model = None, payload_stream = None\<rparr>"
  let ?s1 = "s\<lparr>fetched := fetched s @ [?call]\<rparr>"
  let ?s2 = "?s1\<lparr>res := res_setHeader (ascii ''Content-Type'')
                                  [ascii ''text/plain; charset=utf-8''] (res ?s1)\<rparr>"
  have inv: "written (res ?s2) \<noteq> [] \<longrightarrow> headersSent (res ?s2)"
    using assms by (simp add: res_setHeader_def)
  have sent: "\<And>vals. written (res (fold (\<lambda>val. gemini_chunk w (utf8_text val)) vals ?s2)) \<noteq> [] \<longrightarrow>
      headersSent (res (fold (\<lambda>val. gemini_chunk w (utf8_text val)) vals ?s2))"
    by (rule fold_sent [OF gemini_chunk_sent inv])
  have nf: "\<not> do_not_flush new_TextDecoder" by (simp add: new_TextDecoder_def)
  show ?thesis
    using sent
    by (auto simp add: same_but_failure_def handleGeminiStream_def Let_def
        gemini_loop_fold [OF nf] gemini_chunk_without_read_failure fetch_without_read_failure
        split: sum.splits)
qed

lemma ocr_switch_same_but_failure:
  assumes "written (res s) = []"
  shows "same_but_failure (ocr_switch w body s) (ocr_switch (without_read_failure w) body s) s"
proof -
  have env: "env (without_read_failure w) = env w" by (simp add: without_read_failure_def)
  have early: "\<And>e. same_but_failure (Some e, s) (Some e, s) s"
    by (simp add: same_but_failure_def)
  show ?thesis
    by (simp add: ocr_switch_def Let_def env early openai_same_but_failure [OF assms]
        gemini_same_but_failure [OF assms] split: sum.splits)
qed

lemma catch_block_res:
  "res (catch_block w e s) =
     (if \<not> headersSent (res s) then
        res_send (JObj [(ascii ''error'',
                    JStr (ascii ''Error processing your request: '' @ errorMessage w e))])
                  (res_status 500 (res s))
      else res_end (res s))"
  by (simp add: catch_block_def console_error_def Let_def)

lemma ocr_switch_failure:
  assumes "provider_key (env w) (provider_of (own_prop body (ascii ''llm''))) = Some k"
    and "fetch w (ocr_call (provider_of (own_prop body (ascii ''llm''))) k) = Inr r"
  shows "(fst (ocr_switch w body s) \<noteq> None
            \<and> written (res (snd (ocr_switch w body s))) = written (res s)
            \<and> headersSent (res (snd (ocr_switch w body s))) = headersSent (res s))
         \<or> fst (ocr_switch w body s) = read_failure r"
proof (cases "k = []")
  case True
  with assms(1) show ?thesis
    by (auto simp add: ocr_switch_def provider_of_def credential_def Let_def split: if_splits)
next
  case False
  have nf: "\<not> do_not_flush new_TextDecoder" by (simp add: new_TextDecoder_def)
  show ?thesis
  proof (cases "provider_of (own_prop body (ascii ''llm''))")
    case Deepseek
    with assms(2) show ?thesis
      by (auto simp add: switch_with_key [OF assms(1) False] handleOpenAICompatibleStream_def
          Let_def openai_loop_lines split: sum.splits)
  next
    case Openai
    with assms(2) show ?thesis
      by (auto simp add: switch_with_key [OF assms(1) False] handleOpenAICompatibleStream_def
          Let_def openai_loop_lines split: sum.splits)
  next
    case Gemini
    with assms(2) show ?thesis
      by (auto simp add: switch_with_key [OF assms(1) False] handleGeminiStream_def
          Let_def gemini_loop_fold [OF nf] split: sum.splits)
  qed
qed

lemma catch_block_mid_stream:
  "headersSent (res s) \<Longrightarrow>
   catch_block w e s = s\<lparr>console := console s @ [FunctionError e, MidStream], res := res_end (res s)\<rparr>"
  by (simp add: catch_block_def console_error_def Let_def)

text \<open>
  Claim C9, as amended. When an OCR request has had at least one fragment written and a
  read of the provider's body is then rejected, the handler writes two lines to the
  server log (the error, and that it occurred mid-stream) and ends the response with the
  same \<open>res.end()\<close> as at the normal end of the stream. The state it ends in is that of the
  same reads ending normally but for these two log lines: the response the caller gets
  (status, headers, fragments, ended) is the same.
\<close>

theorem failure_after_fragment_ends_like_success:
  assumes "req_method req = Some (ascii ''POST'')" and "\<not> nullish (req_body req)"
    and "request_mode (req_body req) = Ocr"
    and "provider_key (env w) (provider_of (own_prop (req_body req) (ascii ''llm''))) = Some k"
    and "fetch w (ocr_call (provider_of (own_prop (req_body req) (ascii ''llm''))) k) = Inr r"
    and "written (res (handler w req)) \<noteq> []"
  shows "handler w req =
           (handler (without_read_failure w) req)
             \<lparr>console := console (handler (without_read_failure w) req) @
                (case read_failure r of None \<Rightarrow> [] | Some e \<Rightarrow> [FunctionError e, MidStream])\<rparr> \<and>
         res (handler w req) = res (handler (without_read_failure w) req) \<and>
         ended (res (handler w req))"
proof -
  let ?w' = "without_read_failure w"
  let ?run = "ocr_switch w (req_body req) new_server"
  let ?run' = "ocr_switch ?w' (req_body req) new_server"
  have new: "written (res new_server) = []" "\<not> headersSent (res new_server)"
    by (simp_all add: new_server_def new_response_def)
  have h: "handler w req = settle w (ocr_route w (req_body req) new_server)"
    and h': "handler ?w' req = settle ?w' (ocr_route ?w' (req_body req) new_server)"
    using assms(1,3) by (simp_all add: handler_def route_by_mode [OF assms(2)])
  obtain failure F where run: "?run = (failure, F)" by (cases ?run)
  obtain failure' F' where run': "?run' = (failure', F')" by (cases ?run')
  have not_early: "\<not> (failure \<noteq> None \<and> written (res F) = [] \<and> \<not> headersSent (res F))"
  proof
    assume early: "failure \<noteq> None \<and> written (res F) = [] \<and> \<not> headersSent (res F)"
    then obtain e where "failure = Some e" by auto
    with early run have "written (res (handler w req)) = []"
      by (simp add: h ocr_route_def catch_block_res res_send_def res_status_def)
    with assms(6) show False by simp
  qed
  from ocr_switch_same_but_failure [OF new(1), of w "req_body req"] not_early
  have same: "failure' = None" "F' = F" "written (res F) \<noteq> [] \<longrightarrow> headersSent (res F)"
    by (auto simp add: same_but_failure_def run run' new)
  from ocr_switch_failure [OF assms(4,5), of new_server] not_early
  have failure: "failure = read_failure r"
    by (auto simp add: run new)
  have r': "handler ?w' req = F\<lparr>res := res_end (res F)\<rparr>"
    using run' same by (simp add: h' ocr_route_def)
  show ?thesis
  proof (cases failure)
    case None
    with run have "handler w req = F\<lparr>res := res_end (res F)\<rparr>"
      by (simp add: h ocr_route_def)
    with r' None failure show ?thesis by (simp add: res_end_def)
  next
    case (Some e)
    with run have r: "handler w req = catch_block w e F"
      by (simp add: h ocr_route_def)
    have sent: "headersSent (res F)"
    proof (rule ccontr)
      assume unsent: "\<not> headersSent (res F)"
      with same have "written (res F) = []" by auto
      with not_early unsent Some show False by simp
    qed
    from r r' Some failure show ?thesis
      by (simp add: catch_block_mid_stream [OF sent] res_end_def)
  qed
qed

lemma example_cut_off_run:
  "res (handler (example_world_with example_cut_off) (post (example_image (ascii ''deepseek'')))) =
     \<lparr>statusCode = 200,
      headers = [(ascii ''Content-Type'', [ascii ''text/plain; charset=utf-8''])],
      headersSent = True, written = [ascii ''Caf''], sent = None, ended = True\<rparr>"
  by (simp add: handler_def post_def example_image_def route_def get_prop_def own_prop_def
      ocr_route_def ocr_switch_def credential_def example_world_with_def example_world_def
      handleOpenAICompatibleStream_def example_cut_off_def example_terminated_def ascii_bytes_def
      decode_defs Let_def sse_line_def sse_data_def starts_with_def trim_def js_whitespace_def
      JSON_parse_def example_parse_def example_first_def example_second_def example_chunk_def
      example_part_def example_other_part_def delta_content_def get_index0_def own_index0_def
      opt_prop_def write_if_truthy_def res_write_def res_setHeader_def res_end_def
      catch_block_def console_error_def new_server_def new_response_def newline_def ascii_def)

lemma example_complete_run:
  "res (handler (example_world_with example_complete) (post (example_image (ascii ''deepseek'')))) =
     \<lparr>statusCode = 200,
      headers = [(ascii ''Content-Type'', [ascii ''text/plain; charset=utf-8''])],
      headersSent = True, written = [ascii ''Caf''], sent = None, ended = True\<rparr>"
  by (simp add: handler_def post_def example_image_def route_def get_prop_def own_prop_def
      ocr_route_def ocr_switch_def credential_def example_world_with_def example_world_def
      handleOpenAICompatibleStream_def example_complete_def example_cut_off_def
      example_terminated_def ascii_bytes_def
      decode_defs Let_def sse_line_def sse_data_def starts_with_def trim_def js_whitespace_def
      JSON_parse_def example_parse_def example_first_def example_second_def example_chunk_def
      example_part_def example_other_part_def delta_content_def get_index0_def own_index0_def
      opt_prop_def write_if_truthy_def res_write_def res_setHeader_def res_end_def
      catch_block_def console_error_def new_server_def new_response_def newline_def ascii_def)

theorem failure_after_fragment_ends_like_success_witness:
  "written (res (handler (example_world_with example_cut_off) (post (example_image (ascii ''deepseek''))))) \<noteq> [] \<and>
   read_failure example_cut_off = Some (Error (ascii ''terminated'')) \<and>
   res (handler (example_world_with example_cut_off) (post (example_image (ascii ''deepseek'')))) =
     res (handler (without_read_failure (example_world_with example_cut_off))
            (post (example_image (ascii ''deepseek'')))) \<and>
   ended (res (handler (example_world_with example_cut_off) (post (example_image (ascii ''deepseek''))))) \<and>
   console (handler (example_world_with example_cut_off) (post (example_image (ascii ''deepseek'')))) =
     console (handler (without_read_failure (example_world_with example_cut_off))
            (post (example_image (ascii ''deepseek''))))
       @ [FunctionError (Error (ascii ''terminated'')), MidStream]"
proof -
  let ?req = "post (example_image (ascii ''deepseek''))"
  let ?w = "example_world_with example_cut_off"
  have p: "provider_of (own_prop (req_body ?req) (ascii ''llm'')) = Deepseek"
    by (simp add: post_def example_image_def own_prop_def provider_of_def ascii_def)
  have h1: "req_method ?req = Some (ascii ''POST'')" and h2: "\<not> nullish (req_body ?req)"
    and h3: "request_mode (req_body ?req) = Ocr"
    by (simp_all add: post_def example_image_def request_mode_def own_prop_def ascii_def)
  have h4: "provider_key (env ?w) (provider_of (own_prop (req_body ?req) (ascii ''llm''))) =
      Some (ascii ''sk-1'')"
    by (simp add: p example_world_with_def example_world_def)
  have h5: "fetch ?w (ocr_call (provider_of (own_prop (req_body ?req) (ascii ''llm''))) (ascii ''sk-1''))
      = Inr example_cut_off"
    by (simp add: example_world_with_def)
  have h6: "written (res (handler ?w ?req)) \<noteq> []"
    by (simp add: example_cut_off_run)
  have f: "read_failure example_cut_off = Some (Error (ascii ''terminated''))"
    by (simp add: example_cut_off_def)
  note ends = failure_after_fragment_ends_like_success [OF h1 h2 h3 h4 h5 h6]
  have "console (handler ?w ?req) =
      console (handler (without_read_failure ?w) ?req)
        @ [FunctionError (Error (ascii ''terminated'')), MidStream]"
    by (subst ends [THEN conjunct1]) (simp add: f)
  with ends h6 f show ?thesis by blast
qed

text \<open>
  The claim as first stated fails: a body whose read is rejected after one fragment and
  the same body ending normally leave the caller with the same response.
\<close>

theorem mid_stream_failure_is_not_distinguishable:
  "read_failure example_cut_off = Some (Error (ascii ''terminated'')) \<and>
   read_failure example_complete = None \<and>
   reads example_cut_off = reads example_complete \<and>
   written (res (handler (example_world_with example_cut_off)
                   (post (example_image (ascii ''deepseek''))))) = [ascii ''Caf''] \<and>
   res (handler (example_world_with example_cut_off) (post (example_image (ascii ''deepseek'')))) =
     res (handler (example_world_with example_complete) (post (example_image (ascii ''deepseek''))))"
  by (simp add: example_cut_off_run example_complete_run) (simp add: example_cut_off_def example_complete_def)

section \<open>Read boundaries under \<open>stream: true\<close>\<close>

text \<open>
  The decoder of \<open>handleOpenAICompatibleStream\<close>, called with \<open>stream: true\<close> on every read,
  produces the same text however the bytes are cut into reads: the text of the reads is
  the text of their concatenation delivered as one read.
\<close>

theorem streaming_decode_ignores_read_boundaries:
  "stream_text new_TextDecoder chunks = stream_text new_TextDecoder [concat chunks]"
  by (simp add: stream_text_new split_beta)

end
